theory Spec2Isabelle
  imports Main "HOL-Library.AList" "HOL-Library.Sublist"
begin

section \<open>Effects: a trace of logged lines and collaborator calls, and an outcome\<close>

text \<open>
  AstroTuxLauncher.py drives external collaborators (the dedicated server object, the
  status thread, wine, the network probes) and writes to a logger. Each method of the
  launcher is embedded as a function that returns the trace of what it did, in order,
  and how it ended: it returned a value, it called \<^verbatim>\<open>sys.exit(code)\<close> (SystemExit is not
  caught by any handler of the file), or it raised an exception.
\<close>

datatype level = DEBUG | INFO | WARNING | ERROR

text \<open>An exception: the name of its type and \<^verbatim>\<open>str(e)\<close>.\<close>

datatype exn = Exn string string

text \<open>What a collaborator call guarded by \<^verbatim>\<open>try\<close> in the source can do.\<close>

datatype 'a attempt = Raises exn | Returns 'a

text \<open>\<^verbatim>\<open>time.sleep\<close> is recorded in milliseconds: \<^verbatim>\<open>sleep(5)\<close> is \<open>Sleep 5000\<close>,
  \<^verbatim>\<open>sleep(0.1)\<close> is \<open>Sleep 100\<close>.\<close>

datatype action =
    is_Log: Log level string
  | Kill
  | Shutdown
  | Start
  | ServerLoop
  | CheckPortsFree
  | is_UpdateStatus: UpdateStatus bool string
  | StatusThreadStart
  | InputThreadStart
  | Sleep nat
  | CheckApiHealth
  | is_Popen: Popen "string list" "(string \<times> string) list" string
  | Wait int
  | NetTestLocal string int bool
  | NetTestNonlocal string int
  | is_DlDepotDownloader: DlDepotDownloader string string
  | is_UpdateApp: UpdateApp string string string string
  | is_GetRequest: GetRequest string
  | LoggingPrepare
  | LoggingSetupConsole
  | LoggingSetLogDebug bool
  | LoggingSetupLogfile string
  | Makedirs string
  | NewDedicatedServer

datatype 'a outcome = Return 'a | SysExit int | Raise exn

type_synonym 'a result = "action list \<times> 'a outcome"

abbreviation trace :: "'a result \<Rightarrow> action list" where
  "trace \<equiv> fst"

abbreviation outcome :: "'a result \<Rightarrow> 'a outcome" where
  "outcome \<equiv> snd"

definition ret :: "'a \<Rightarrow> 'a result" where
  "ret x = ([], Return x)"

definition act :: "action \<Rightarrow> unit result" where
  "act a = ([a], Return ())"

definition log :: "level \<Rightarrow> string \<Rightarrow> unit result" where
  "log lvl msg = act (Log lvl msg)"

definition raise :: "exn \<Rightarrow> 'a result" where
  "raise e = ([], Raise e)"

definition sys_exit :: "int \<Rightarrow> 'a result" where
  "sys_exit c = ([], SysExit c)"

text \<open>Sequencing: what follows a statement that exits or raises is not run.\<close>

definition and_then :: "'a result \<Rightarrow> ('a \<Rightarrow> 'b result) \<Rightarrow> 'b result" where
  "and_then m f =
     (case m of
        (t, Return x) \<Rightarrow> (case f x of (t', r) \<Rightarrow> (t @ t', r))
      | (t, SysExit c) \<Rightarrow> (t, SysExit c)
      | (t, Raise e) \<Rightarrow> (t, Raise e))"

fun steps :: "unit result list \<Rightarrow> unit result" where
  "steps [] = ret ()"
| "steps (m # ms) = and_then m (\<lambda>_. steps ms)"

definition skip :: "unit result" where
  "skip = ret ()"

text \<open>The collaborator calls of a trace, the logged lines left out.\<close>

definition calls :: "action list \<Rightarrow> action list" where
  "calls t = filter (\<lambda>a. \<not> is_Log a) t"

section \<open>Data model\<close>

text \<open>
  Modelled from the spec: the enum \<^verbatim>\<open>astro.dedicatedserver.ServerStatus\<close> is
  not part of the source file; the spec lists its members as STOPPED, STARTING,
  RUNNING and CRASHED. The launcher names only RUNNING and STARTING.
\<close>

datatype ServerStatus = STOPPED | STARTING | RUNNING | CRASHED

text \<open>The parts of \<^verbatim>\<open>AstroDedicatedServer\<close> that the launcher reads.\<close>

record AstroRCON =
  connected :: bool

record DSConfig =
  PublicIP :: string
  ConsolePort :: int

record EngineConfig =
  Port :: int

record AstroDedicatedServer =
  status :: ServerStatus
  rcon :: AstroRCON
  ds_config :: DSConfig
  engine_config :: EngineConfig

text \<open>\<^verbatim>\<open>interface.StatusUpdaterThread(url, timeout=..., status=...)\<close>.\<close>

record StatusUpdaterThread =
  url :: string
  timeout :: int
  thread_status :: bool

text \<open>
  The two attributes that \<^verbatim>\<open>__init__\<close> assigns first (lines 184-185). Every later
  stage of the launcher object extends this record, so \<^verbatim>\<open>exit\<close> is defined on
  every stage.
\<close>

record launcher_base =
  dedicatedserver :: "AstroDedicatedServer option"
  status_thread :: "StatusUpdaterThread option"

section \<open>Method calls on attributes that may be None\<close>

text \<open>
  Calling a method or reading an attribute of \<^verbatim>\<open>None\<close> raises AttributeError in
  Python. The calls on \<^verbatim>\<open>self.dedicatedserver\<close> and \<^verbatim>\<open>self.status_thread\<close>
  go through these functions, so a missing guard in the launcher shows as a raised
  exception of the model.
\<close>

definition attribute_error :: exn where
  "attribute_error = Exn ''AttributeError'' ''NoneType object has no such attribute''"

definition ds_call :: "AstroDedicatedServer option \<Rightarrow> action \<Rightarrow> unit result" where
  "ds_call ds a = (case ds of None \<Rightarrow> raise attribute_error | Some _ \<Rightarrow> act a)"

definition ds_get :: "AstroDedicatedServer option \<Rightarrow> (AstroDedicatedServer \<Rightarrow> 'a) \<Rightarrow> 'a result" where
  "ds_get ds f = (case ds of None \<Rightarrow> raise attribute_error | Some d \<Rightarrow> ret (f d))"

definition ds_ask :: "AstroDedicatedServer option \<Rightarrow> action \<Rightarrow> 'a \<Rightarrow> 'a result" where
  "ds_ask ds a x = (case ds of None \<Rightarrow> raise attribute_error | Some _ \<Rightarrow> and_then (act a) (\<lambda>_. ret x))"

definition st_call :: "StatusUpdaterThread option \<Rightarrow> action \<Rightarrow> unit result" where
  "st_call st a = (case st of None \<Rightarrow> raise attribute_error | Some _ \<Rightarrow> act a)"

text \<open>Truthiness of \<^verbatim>\<open>reason\<close>: None and the empty string are false.\<close>

definition truthy :: "string option \<Rightarrow> bool" where
  "truthy r = (case r of None \<Rightarrow> False | Some s \<Rightarrow> s \<noteq> [])"

definition str_of :: "string option \<Rightarrow> string" where
  "str_of r = (case r of None \<Rightarrow> ''None'' | Some s \<Rightarrow> s)"

section \<open>exit (lines 515-553)\<close>

text \<open>
  \<^verbatim>\<open>self.dedicatedserver and self.dedicatedserver.status in [RUNNING, STARTING]\<close>:
  the right operand is evaluated only when the object is present.
\<close>

definition starting_or_running :: "AstroDedicatedServer option \<Rightarrow> bool" where
  "starting_or_running ds =
     (case ds of None \<Rightarrow> False | Some d \<Rightarrow> status d \<in> set [RUNNING, STARTING])"

definition exit :: "'a launcher_base_scheme \<Rightarrow> bool \<Rightarrow> string option \<Rightarrow> unit result" where
  "exit self graceful reason =
     (if graceful then
        steps [
          (if truthy reason
           then log INFO (''Quitting gracefully... (Reason: '' @ str_of reason @ '')'')
           else log INFO ''Quitting gracefully...''),
          (if starting_or_running (dedicatedserver self) then
             and_then (ds_get (dedicatedserver self) (\<lambda>d. connected (rcon d))) (\<lambda>c.
               if \<not> c then
                 ds_call (dedicatedserver self) Kill
               else
                 steps [
                   log DEBUG ''Shutting down Dedicated Server before quitting...'',
                   ds_call (dedicatedserver self) Shutdown
                 ])
           else
             steps [
               log INFO ''Goodbye!'',
               log DEBUG ''Quitting with exit code 0...'',
               sys_exit 0
             ])
        ]
      else
        steps [
          (if truthy reason
           then log INFO (''Quitting... (Reason: '' @ str_of reason @ '')'')
           else log INFO ''Quitting...''),
          (if dedicatedserver self \<noteq> None then ds_call (dedicatedserver self) Kill else skip),
          (if status_thread self \<noteq> None
           then st_call (status_thread self) (UpdateStatus False ''Server was forcibly closed'')
           else skip),
          act (Sleep 100),
          sys_exit 1
        ])"

section \<open>Further combinators\<close>

text \<open>A collaborator call that returns a value: the call is recorded, the world answers.\<close>

definition call :: "action \<Rightarrow> 'a \<Rightarrow> 'a result" where
  "call a x = and_then (act a) (\<lambda>_. ret x)"

text \<open>A collaborator call that may raise.\<close>

definition lift_attempt :: "'a attempt \<Rightarrow> 'a result" where
  "lift_attempt r = (case r of Raises e \<Rightarrow> raise e | Returns x \<Rightarrow> ret x)"

definition try_call :: "action \<Rightarrow> 'a attempt \<Rightarrow> 'a result" where
  "try_call a r = and_then (act a) (\<lambda>_. lift_attempt r)"

text \<open>
  \<^verbatim>\<open>try: body except Exception as e: handler\<close>. The exceptions of the model are
  all subclasses of Exception; SystemExit passes through the handler untouched.
\<close>

definition catch :: "'a result \<Rightarrow> (exn \<Rightarrow> 'a result) \<Rightarrow> 'a result" where
  "catch m h =
     (case m of
        (t, Raise e) \<Rightarrow> (case h e of (t', r) \<Rightarrow> (t @ t', r))
      | (t, Return x) \<Rightarrow> (t, Return x)
      | (t, SysExit c) \<Rightarrow> (t, SysExit c))"

fun exn_name :: "exn \<Rightarrow> string" where
  "exn_name (Exn n m) = n"

fun exn_str :: "exn \<Rightarrow> string" where
  "exn_str (Exn n m) = m"

text \<open>\<^verbatim>\<open>str(n)\<close> of a Python int, as the f-strings of the log lines print it.\<close>

definition digit :: "nat \<Rightarrow> char" where
  "digit d = ''0123456789'' ! (d mod 10)"

fun str_nat :: "nat \<Rightarrow> string" where
  "str_nat n = (if n < 10 then [digit n] else str_nat (n div 10) @ [digit n])"

declare str_nat.simps [simp del]

definition str_int :: "int \<Rightarrow> string" where
  "str_int i = (if i < 0 then CHR ''-'' # str_nat (nat (- i)) else str_nat (nat i))"

text \<open>\<^verbatim>\<open>sep.join(xs)\<close>.\<close>

fun join :: "string \<Rightarrow> string list \<Rightarrow> string" where
  "join sep [] = []"
| "join sep [x] = x"
| "join sep (x # y # ys) = x @ sep @ join sep (y # ys)"

text \<open>\<^verbatim>\<open>os.path.join(a, b)\<close>, \<^verbatim>\<open>os.path.dirname\<close> and \<^verbatim>\<open>os.path.basename\<close> of posixpath.\<close>

definition path_join :: "string \<Rightarrow> string \<Rightarrow> string" where
  "path_join a b =
     (if b \<noteq> [] \<and> hd b = CHR ''/'' then b
      else if a = [] \<or> last a = CHR ''/'' then a @ b
      else a @ ''/'' @ b)"

definition rstrip_slash :: "string \<Rightarrow> string" where
  "rstrip_slash p = rev (dropWhile (\<lambda>c. c = CHR ''/'') (rev p))"

definition dirname :: "string \<Rightarrow> string" where
  "dirname p =
     (let head = rev (dropWhile (\<lambda>c. c \<noteq> CHR ''/'') (rev p))
      in if head \<noteq> [] \<and> \<not> list_all (\<lambda>c. c = CHR ''/'') head then rstrip_slash head else head)"

definition basename :: "string \<Rightarrow> string" where
  "basename p = rev (takeWhile (\<lambda>c. c \<noteq> CHR ''/'') (rev p))"

section \<open>Constants\<close>

definition DEPOTDL_PATH :: string where
  "DEPOTDL_PATH = ''libs/depotdownloader''"

definition DS_EXECUTABLE :: string where
  "DS_EXECUTABLE = ''AstroServer.exe''"

definition ASTRO_SERVER_STATS_URL :: string where
  "ASTRO_SERVER_STATS_URL = ''https://astroservercheck.joejoetv.de/api/stats''"

section \<open>Configuration classes (lines 83-141)\<close>

datatype NotificationMethod = NONE | NTFY | DISCORD

record DiscordConfig =
  webhookURL :: "string option"

record NTFYConfig =
  topic :: "string option"
  serverURL :: string

text \<open>
  The members of \<^verbatim>\<open>interface.EventType\<close> are kept by name. The field
  \<^verbatim>\<open>method\<close> of the source is \<open>notification_method\<close> here.
\<close>

record NotificationConfig =
  notification_method :: NotificationMethod
  name :: string
  EventWhitelist :: "string list"
  discord :: "DiscordConfig option"
  ntfy :: "NTFYConfig option"

record StatusConfig =
  SendStatus :: bool
  Interval :: int
  EndpointURL :: string

text \<open>
  \<^verbatim>\<open>LauncherConfig\<close>. \<^verbatim>\<open>ServerStatusInterval\<close> (a float that only the dedicated
  server reads) is left out.
\<close>

record LauncherConfig =
  AutoUpdateServer :: bool
  CheckNetwork :: bool
  OverwritePublicIP :: bool
  notifications :: NotificationConfig
  status_config :: StatusConfig
  LogDebugMessages :: bool
  AstroServerPath :: string
  OverrideWinePath :: "string option"
  WinePrefixPath :: string
  WineBootTimeout :: int
  LogPath :: string
  PlayfabAPIInterval :: int
  DisableEncryption :: bool
  WrapperPath :: "string option"

section \<open>Console commands\<close>

text \<open>
  Modelled from the spec: \<^verbatim>\<open>interface.ConsoleParser\<close> is not part of the source
  file. The spec describes a parsed command as a kind (an enum over the recognised
  console verbs, HELP among them) with a payload; \<^verbatim>\<open>parse_input\<close> returns the pair
  (success, result), where result is the parsed command on success and a message
  otherwise. The launcher reads the keys "cmd" and "message" of a parsed command.
\<close>

datatype Command = HELP | Verb string

record parsed_command =
  cmd :: Command
  message :: string
  args :: "string list"

datatype parse_result = Success parsed_command | Failure string

section \<open>Notification handlers\<close>

datatype NotificationHandler =
    LoggingNotificationHandler
  | DiscordNotificationHandler string string "string set"
  | NTFYNotificationHandler string string string "string set"

section \<open>The launcher object after \<^verbatim>\<open>__init__\<close>\<close>

record launcher = launcher_base +
  config_path :: string
  config :: LauncherConfig
  wineexec :: string
  wineserverexec :: string
  launcherPath :: string
  depotdl_path :: string
  console_parser :: "string \<Rightarrow> parse_result"
  cmd_queue :: "parsed_command list"
  notification_handlers :: "NotificationHandler list"
  buildversion :: "string option"

section \<open>The world: what the collaborators answer\<close>

text \<open>
  The answers of the collaborators are parameters of the model. Reads of the local
  file system leave no entry in the trace; network requests, subprocesses and the
  calls on the dedicated server and on the threads do. A collaborator that the source
  calls inside \<^verbatim>\<open>try\<close> answers with an \<open>attempt\<close>; the others are taken to
  return.

  \<^item> \<open>fetch_latest_version url\<close> stands for
    \<^verbatim>\<open>json.load(get_request(url))["stats"]["latestVersion"]\<close>: the request, the
    JSON decoding and the two lookups, any of which may raise.
  \<^item> \<open>version_parse\<close> and \<open>version_gt\<close> stand for \<^verbatim>\<open>packaging.version.parse\<close>
    and the ordering \<^verbatim>\<open>>\<close> of its versions; \<open>'v\<close> is the type of parsed versions.
  \<^item> \<open>read_build_version\<close> is the installed version before an update and
    \<open>read_build_version_updated\<close> the one that is read back after
    \<^verbatim>\<open>steam.update_app\<close> ran.
  \<^item> \<open>ensure_toml_config\<close> stands for \<^verbatim>\<open>LauncherConfig.ensure_toml_config\<close>,
    \<open>config_json\<close> for \<^verbatim>\<open>json.dumps(config.to_dict(encode_json=True), indent=4)\<close>
    and \<open>new_dedicated_server\<close> for the constructor \<^verbatim>\<open>AstroDedicatedServer(self)\<close>.
\<close>

record 'v world =
  os_environ :: "(string \<times> string) list"
  getcwd :: string
  abspath :: "string \<Rightarrow> string"
  which :: "string \<Rightarrow> string option"
  path_exists :: "string \<Rightarrow> bool"
  path_isfile :: "string \<Rightarrow> bool"
  read_build_version :: "string \<Rightarrow> string option"
  read_build_version_updated :: "string \<Rightarrow> string option"
  fetch_latest_version :: "string \<Rightarrow> string attempt"
  version_parse :: "string \<Rightarrow> 'v attempt"
  version_gt :: "'v \<Rightarrow> 'v \<Rightarrow> bool"
  update_app :: "string \<Rightarrow> string \<Rightarrow> string \<Rightarrow> string \<Rightarrow> bool"
  check_api_health :: bool
  popen :: "string list \<Rightarrow> (string \<times> string) list \<Rightarrow> string \<Rightarrow> unit attempt"
  wait :: "int \<Rightarrow> int attempt"
  check_ports_free :: bool
  net_test_local :: "string \<Rightarrow> int \<Rightarrow> bool \<Rightarrow> bool"
  net_test_nonlocal :: "string \<Rightarrow> int \<Rightarrow> bool"
  ds_start :: "bool attempt"
  ensure_toml_config :: "string \<Rightarrow> LauncherConfig attempt"
  config_json :: "LauncherConfig \<Rightarrow> string"
  new_dedicated_server :: "AstroDedicatedServer attempt"

section \<open>check_ds_executable (lines 288-293)\<close>

definition check_ds_executable :: "'v world \<Rightarrow> launcher \<Rightarrow> bool" where
  "check_ds_executable w self =
     (let execpath = path_join (AstroServerPath (config self)) DS_EXECUTABLE
      in path_exists w execpath \<and> path_isfile w execpath)"

section \<open>on_input (lines 295-311)\<close>

text \<open>\<^verbatim>\<open>Queue.put\<close> on the unbounded queue appends at the tail and never blocks.\<close>

definition on_input :: "launcher \<Rightarrow> string \<Rightarrow> launcher result" where
  "on_input self input_string =
     (case console_parser self input_string of
        Success result \<Rightarrow>
          (if cmd result = HELP then
             and_then (log INFO (message result)) (\<lambda>_. ret self)
           else
             ret (self\<lparr>cmd_queue := cmd_queue self @ [result]\<rparr>))
      | Failure result \<Rightarrow>
          and_then (log WARNING result) (\<lambda>_. ret self))"

section \<open>update_wine_prefix (lines 313-353)\<close>

definition wineboot_cmd :: "launcher \<Rightarrow> string list" where
  "wineboot_cmd self =
     (let cmd = [wineexec self, ''wineboot'']
      in if truthy (WrapperPath (config self)) then str_of (WrapperPath (config self)) # cmd else cmd)"

definition wineboot_env :: "'v world \<Rightarrow> launcher \<Rightarrow> (string \<times> string) list" where
  "wineboot_env w self =
     (let env = os_environ w;
          env = (if ''DISPLAY'' \<in> fst ` set env then AList.delete ''DISPLAY'' env else env);
          env = AList.update ''WINEPREFIX'' (WinePrefixPath (config self)) env
      in AList.update ''WINEDEBUG'' ''-all'' env)"

text \<open>
  The two handlers in the order of the source: \<^verbatim>\<open>subprocess.TimeoutExpired\<close> first,
  then every other exception.
\<close>

definition update_wine_prefix :: "'v world \<Rightarrow> launcher \<Rightarrow> bool result" where
  "update_wine_prefix w self =
     and_then (log DEBUG ''Ensuring WINE prefix is setup...'') (\<lambda>_.
       let tmo = WineBootTimeout (config self);
           cmd = wineboot_cmd self;
           env = wineboot_env w self
       in and_then
            (log DEBUG (''Executing command '' @ [CHR 0x27] @ join '' '' cmd @ [CHR 0x27]
               @ '' in WINE prefix '' @ [CHR 0x27] @ WinePrefixPath (config self) @ [CHR 0x27] @ ''...''))
            (\<lambda>_.
          catch
            (and_then (try_call (Popen cmd env (AstroServerPath (config self)))
                         (popen w cmd env (AstroServerPath (config self)))) (\<lambda>_.
             and_then (try_call (Wait tmo) (wait w tmo)) (\<lambda>code.
               ret (code = 0))))
            (\<lambda>e.
               if exn_name e = ''TimeoutExpired'' then
                 and_then (log DEBUG (''Wine process took longer than '' @ str_int tmo @ '' seconds, aborting''))
                   (\<lambda>_. ret False)
               else
                 and_then (log ERROR (''Error occurred during updating of wine prefix: '' @ exn_str e))
                   (\<lambda>_. ret False))))"

section \<open>check_network_config (lines 355-391)\<close>

definition check_network_config :: "'v world \<Rightarrow> launcher \<Rightarrow> unit result" where
  "check_network_config w self =
     (case dedicatedserver self of
        None \<Rightarrow> raise (Exn ''ValueError'' ''Dedcated Server has to be created first'')
      | Some ds \<Rightarrow>
          steps [
            log INFO ''Checking Network Configuration...'',
            and_then (call (NetTestLocal (PublicIP (ds_config ds)) (Port (engine_config ds)) False)
                        (net_test_local w (PublicIP (ds_config ds)) (Port (engine_config ds)) False))
              (\<lambda>server_local_reachable.
            and_then (call (NetTestNonlocal (PublicIP (ds_config ds)) (Port (engine_config ds)))
                        (net_test_nonlocal w (PublicIP (ds_config ds)) (Port (engine_config ds))))
              (\<lambda>server_nonlocal_reachable.
               let test_res = (server_local_reachable, server_nonlocal_reachable) in
               if test_res = (True, True) then
                 log INFO ''Network configuration looks good''
               else if test_res = (False, True) then
                 steps [
                   log WARNING ''The Server is not accessible from the local network'',
                   log WARNING ''This usually indicates an issue with NAT Loopback''
                 ]
               else if test_res = (True, False) then
                 steps [
                   log WARNING ''The server can be reached locally, but not from outside of the local network'',
                   log WARNING (''Make sure the Server Port ('' @ str_int (Port (engine_config ds))
                      @ '') is forwarded for UDP traffic'')
                 ]
               else if test_res = (False, False) then
                 steps [
                   log WARNING ''The Server is completely unreachable'',
                   log WARNING (''Make sure the Server Port ('' @ str_int (Port (engine_config ds))
                      @ '') is forwarded for UDP traffic and check firewall settings'')
                 ]
               else skip)),
            and_then (call (NetTestLocal (PublicIP (ds_config ds)) (ConsolePort (ds_config ds)) True)
                        (net_test_local w (PublicIP (ds_config ds)) (ConsolePort (ds_config ds)) True))
              (\<lambda>reachable.
               let rcon_local_blocked = \<not> reachable in
               if rcon_local_blocked then
                 log INFO ''RCON network configuration looks good''
               else
                 steps [
                   log WARNING (''SECURITY ALERT: The RCON Port ('' @ str_int (ConsolePort (ds_config ds))
                      @ '') is accessible from outside''),
                   log WARNING ''SECURITY ALERT: This potentially allows access to the Remote Console from outside your network'',
                   log WARNING ''SECURITY ALERT: Disable this ASAP to prevent issues'',
                   act (Sleep 5000)
                 ])
          ])"

section \<open>update_server (lines 393-412)\<close>

definition update_server :: "'v world \<Rightarrow> launcher \<Rightarrow> launcher result" where
  "update_server w self =
     and_then
       (if \<not> path_exists w (depotdl_path self) then
          steps [
            log INFO ''DepotDownloader not found, downloading...'',
            act (DlDepotDownloader (dirname (depotdl_path self)) (basename (depotdl_path self)))
          ]
        else skip) (\<lambda>_.
     and_then (log INFO ''Updating Astroneer Dedicated Server app from Steam...'') (\<lambda>_.
     and_then (call (UpdateApp (depotdl_path self) ''728470'' ''windows'' (AstroServerPath (config self)))
                 (update_app w (depotdl_path self) ''728470'' ''windows'' (AstroServerPath (config self))))
       (\<lambda>success.
     let self = self\<lparr>buildversion := read_build_version_updated w (AstroServerPath (config self))\<rparr> in
     and_then
       (if success \<and> buildversion self \<noteq> None then
          log INFO (''Sucessfully updated Astroneer Dedicated Server to version '' @ str_of (buildversion self))
        else
          log ERROR ''Error while updating Astroneer Dedicated Server'') (\<lambda>_.
     ret self))))"

section \<open>check_server_update (lines 414-459)\<close>

text \<open>
  Lines 420-442: the decision. The result is the pair \<^verbatim>\<open>(do_update, installed)\<close> that
  the rest of the method reads.
\<close>

definition update_decision :: "'v world \<Rightarrow> launcher \<Rightarrow> (bool \<times> bool) result" where
  "update_decision w self =
     (let not_installed =
            and_then (log WARNING ''Astroneer Dedicated Server is not installed yet'') (\<lambda>_.
              ret (True, False))
      in case read_build_version w (AstroServerPath (config self)) of
           None \<Rightarrow> not_installed
         | Some oldversion \<Rightarrow>
             if \<not> check_ds_executable w self then not_installed
             else
               catch
                 (and_then (try_call (GetRequest ASTRO_SERVER_STATS_URL)
                              (fetch_latest_version w ASTRO_SERVER_STATS_URL)) (\<lambda>newversion.
                  and_then (lift_attempt (version_parse w newversion)) (\<lambda>new.
                  and_then (lift_attempt (version_parse w oldversion)) (\<lambda>old.
                    if version_gt w new old then
                      and_then
                        (log WARNING (''Astroneer Dedicated Server update available (''
                           @ oldversion @ '' -> '' @ newversion @ '')'')) (\<lambda>_.
                        ret (True, True))
                    else ret (False, True)))))
                 (\<lambda>e.
                    and_then (log ERROR (''Error occured while checking for newest version: '' @ exn_str e)) (\<lambda>_.
                    and_then (log WARNING ''Trying server update blindly...'') (\<lambda>_.
                      ret (True, True)))))"

definition check_server_update :: "'v world \<Rightarrow> launcher \<Rightarrow> bool \<Rightarrow> launcher result" where
  "check_server_update w self force_update =
     and_then (update_decision w self) (\<lambda>(do_update, installed).
       if do_update then
         and_then
           (if AutoUpdateServer (config self) then
              (if installed then log INFO ''Automatically updating Astroneer Dedicated Server...''
               else log INFO ''Automatically installing Astroneer Dedicated Server...'')
            else skip) (\<lambda>_.
         if AutoUpdateServer (config self) \<or> force_update then
           update_server w self
         else
           and_then (log INFO ''Not installing/updating automatically'') (\<lambda>_. ret self))
       else
         and_then
           (if force_update then log INFO ''Noting to do''
            else log INFO ''No update available, the Astroneer Dedicated Server is on the newest version'')
           (\<lambda>_. ret self))"

section \<open>start_server (lines 461-508)\<close>

text \<open>
  \<^verbatim>\<open>server_loop\<close> is the blocking loop of the dedicated server; the launcher only
  calls it, so it is one entry of the trace.
\<close>

definition start_server :: "'v world \<Rightarrow> launcher \<Rightarrow> unit result" where
  "start_server w self0 =
     and_then (check_server_update w self0 False) (\<lambda>self.
     and_then (call CheckApiHealth (check_api_health w)) (\<lambda>healthy.
     and_then
       (if \<not> healthy then
          steps [
            log ERROR ''Playfab API is unavailable. Are you connected to the internet?'',
            exit self False (Some ''Playfab API unavailable'')
          ]
        else skip) (\<lambda>_.
     and_then (update_wine_prefix w self) (\<lambda>prefix_ok.
     and_then
       (if \<not> prefix_ok then exit self False (Some ''Error while updating WINE prefix'') else skip) (\<lambda>_.
     and_then (ds_ask (dedicatedserver self) CheckPortsFree (check_ports_free w)) (\<lambda>ports_free.
     and_then
       (if \<not> ports_free then exit self False (Some ''Port not available'') else skip) (\<lambda>_.
     and_then
       (if CheckNetwork (config self) then check_network_config w self else skip) (\<lambda>_.
     and_then (log DEBUG ''Starting input thread...'') (\<lambda>_.
     and_then (act InputThreadStart) (\<lambda>_.
     and_then
       (catch
          (case dedicatedserver self of
             None \<Rightarrow> raise attribute_error
           | Some _ \<Rightarrow> try_call Start (ds_start w))
          (\<lambda>e.
             and_then (log ERROR (''There as an error while starting the Dedicated Server: '' @ exn_str e)) (\<lambda>_.
             and_then (exit self False (Some ''Error while starting Dedicated Server'')) (\<lambda>_.
               ret True)))) (\<lambda>started.
     if \<not> started then ret ()
     else
       steps [
         log INFO ''Enter 'help' to get help about command usage'',
         st_call (status_thread self) (UpdateStatus True ''Server is running''),
         (if SendStatus (status_config (config self)) then
            steps [
              log INFO ''Sending of status updates is enabled'',
              st_call (status_thread self) StatusThreadStart
            ]
          else skip),
         log DEBUG ''Starting server loop...'',
         ds_call (dedicatedserver self) ServerLoop
       ])))))))))))"

section \<open>The constructor (lines 183-286)\<close>

text \<open>
  The depotdownloader path (lines 235-253): the path and what is logged and created
  on the way.
\<close>

definition init_depotdl_path :: "'v world \<Rightarrow> string option \<Rightarrow> string result" where
  "init_depotdl_path w depotdl_exec =
     and_then
       (if truthy depotdl_exec then
          (let given = str_of depotdl_exec;
               given = (case which w given of Some wpath \<Rightarrow> wpath | None \<Rightarrow> given)
           in if path_isfile w given then
                and_then (log INFO (''DepotDownloader path overridden: '' @ abspath w given)) (\<lambda>_.
                  ret (Some (abspath w given)))
              else
                and_then (log WARNING ''The given DepotDownloader path doesn't point to a file, using default path'') (\<lambda>_.
                  ret None))
        else ret None) (\<lambda>path.
     case path of
       Some p \<Rightarrow> ret p
     | None \<Rightarrow>
         and_then (act (Makedirs (dirname (abspath w DEPOTDL_PATH)))) (\<lambda>_.
           ret (abspath w DEPOTDL_PATH)))"

text \<open>The notification handlers (lines 270-283).\<close>

definition init_notifications :: "LauncherConfig \<Rightarrow> NotificationHandler list result" where
  "init_notifications cfg =
     (let n = notifications cfg; handlers = [LoggingNotificationHandler] in
      if notification_method n = DISCORD then
        (case discord n of
           None \<Rightarrow> raise attribute_error
         | Some d \<Rightarrow>
             if truthy (webhookURL d) then
               ret (handlers @ [DiscordNotificationHandler (str_of (webhookURL d)) (name n) (set (EventWhitelist n))])
             else
               and_then (log WARNING ''Discord Webhook URL is not set in config, not sending Discord notifications'') (\<lambda>_.
                 ret handlers))
      else if notification_method n = NTFY then
        (case ntfy n of
           None \<Rightarrow> raise attribute_error
         | Some t \<Rightarrow>
             if truthy (topic t) then
               ret (handlers @ [NTFYNotificationHandler (str_of (topic t)) (serverURL t) (name n) (set (EventWhitelist n))])
             else
               and_then (log WARNING ''ntfy topic is not set in config, not sending ntfy notifications'') (\<lambda>_.
                 ret handlers))
      else ret handlers)"

text \<open>
  \<^verbatim>\<open>__init__\<close>. The object under construction has the two attributes of
  \<open>launcher_base\<close> from the first two statements on; both calls of \<^verbatim>\<open>self.exit()\<close>
  inside the constructor see this object. The other attributes are assigned one by
  one in the source and are collected into the record at the end.

  If \<^verbatim>\<open>self.exit()\<close> returned after a failed load of the configuration, the next
  read of \<^verbatim>\<open>self.config\<close> would raise AttributeError; after a missing wine
  executable the constructor would go on without one. Neither happens, since the
  forced exit always ends in \<^verbatim>\<open>sys.exit(1)\<close>; the model raises in both places.
\<close>

definition init ::
  "'v world \<Rightarrow> (string \<Rightarrow> parse_result) \<Rightarrow> string \<Rightarrow> string option \<Rightarrow> string option \<Rightarrow> bool
     \<Rightarrow> launcher result" where
  "init w parser config_path_arg astro_path depotdl_exec force_debug_log =
     (let self = \<lparr>dedicatedserver = None, status_thread = None\<rparr> in
      and_then (act LoggingPrepare) (\<lambda>_.
      and_then (act LoggingSetupConsole) (\<lambda>_.
      and_then
        (catch
           (and_then (log INFO (''Configuration file path: '' @ abspath w config_path_arg)) (\<lambda>_.
              lift_attempt (ensure_toml_config w (abspath w config_path_arg))))
           (\<lambda>e.
              and_then (log ERROR (''Error while loading config file ('' @ exn_name e @ ''): '' @ exn_str e)) (\<lambda>_.
              and_then (log ERROR ''Please check the config path parameter and/or config file'') (\<lambda>_.
              and_then (exit self False None) (\<lambda>_.
                raise attribute_error))))) (\<lambda>cfg.
      let cfg = (case astro_path of None \<Rightarrow> cfg | Some p \<Rightarrow> cfg\<lparr>AstroServerPath := p\<rparr>);
          cfg = (if force_debug_log then cfg\<lparr>LogDebugMessages := True\<rparr> else cfg);
          cfg = cfg\<lparr>AstroServerPath := abspath w (AstroServerPath cfg)\<rparr>;
          cfg = cfg\<lparr>WinePrefixPath := abspath w (WinePrefixPath cfg)\<rparr>;
          cfg = cfg\<lparr>LogPath := abspath w (LogPath cfg)\<rparr>;
          wine = which w ''wine'';
          wineserver = which w ''wineserver'';
          override = (case OverrideWinePath cfg of None \<Rightarrow> False | Some p \<Rightarrow> path_isfile w p);
          wine = (if override then Some (abspath w (str_of (OverrideWinePath cfg))) else wine);
          wineserver = (if override then Some (path_join (dirname (str_of wine)) ''wineserver'') else wineserver)
      in
      and_then
        (case (wine, wineserver) of
           (Some we, Some wse) \<Rightarrow> ret (we, wse)
         | _ \<Rightarrow>
             and_then (log ERROR ''Wine (or Wineserver) executable not found!'') (\<lambda>_.
             and_then (log ERROR ''Make sure that you have wine installed and accessible'') (\<lambda>_.
             and_then (log ERROR ''or set 'OverrideWinePath' config option to the path of the wine executable'') (\<lambda>_.
             and_then (exit self False None) (\<lambda>_.
               raise (Exn ''TypeError'' ''wine executable is None'')))))) (\<lambda>(we, wse).
      and_then (act (LoggingSetLogDebug (LogDebugMessages cfg))) (\<lambda>_.
      and_then (act (LoggingSetupLogfile (LogPath cfg))) (\<lambda>_.
      and_then (init_depotdl_path w depotdl_exec) (\<lambda>depotdl.
      and_then (log INFO (''Working directory: '' @ getcwd w)) (\<lambda>_.
      and_then (log DEBUG (''Launcher configuration (including overrides):'' @ [CHR 0x0A] @ config_json w cfg)) (\<lambda>_.
      let st = \<lparr>url = EndpointURL (status_config cfg), timeout = Interval (status_config cfg),
                 thread_status = False\<rparr>
      in
      and_then (init_notifications cfg) (\<lambda>handlers.
      and_then (try_call NewDedicatedServer (new_dedicated_server w)) (\<lambda>ds.
        ret \<lparr>dedicatedserver = Some ds, status_thread = Some st,
              config_path = abspath w config_path_arg, config = cfg,
              wineexec = we, wineserverexec = wse,
              launcherPath = getcwd w, depotdl_path = depotdl,
              console_parser = parser, cmd_queue = [],
              notification_handlers = handlers, buildversion = None\<rparr>))))))))))))"

section \<open>Release versions\<close>

text \<open>
  \<^verbatim>\<open>packaging.version\<close> is a library, not code of the launcher, and the theorems
  below hold for every \<open>version_parse\<close> and \<open>version_gt\<close>. For the concrete
  examples the world parses plain release versions \<^verbatim>\<open>N(.N)*\<close> as the library does:
  the segments are read as numbers, trailing zero segments are dropped, and the
  resulting tuples are compared lexicographically. Every other string is rejected
  with \<^verbatim>\<open>InvalidVersion\<close> here (the library accepts more forms, none of which the
  examples use).
\<close>

fun split_on :: "char \<Rightarrow> string \<Rightarrow> string list" where
  "split_on c [] = [[]]"
| "split_on c (x # xs) =
     (if x = c then [] # split_on c xs
      else (case split_on c xs of [] \<Rightarrow> [[x]] | y # ys \<Rightarrow> (x # y) # ys))"

definition is_digit :: "char \<Rightarrow> bool" where
  "is_digit c = (c \<in> set ''0123456789'')"

definition int_of_digits :: "string \<Rightarrow> nat" where
  "int_of_digits ds = foldl (\<lambda>n c. 10 * n + (of_char c - 48)) 0 ds"

definition strip_zeros :: "nat list \<Rightarrow> nat list" where
  "strip_zeros xs = rev (dropWhile (\<lambda>n. n = 0) (rev xs))"

definition parse_release :: "string \<Rightarrow> nat list attempt" where
  "parse_release s =
     (let segs = split_on CHR ''.'' s
      in if list_all (\<lambda>seg. seg \<noteq> [] \<and> list_all is_digit seg) segs
         then Returns (strip_zeros (map int_of_digits segs))
         else Raises (Exn ''InvalidVersion'' (''Invalid version: '' @ [CHR 0x27] @ s @ [CHR 0x27])))"

fun release_gt :: "nat list \<Rightarrow> nat list \<Rightarrow> bool" where
  "release_gt [] ys = False"
| "release_gt (x # xs) [] = True"
| "release_gt (x # xs) (y # ys) = (y < x \<or> (x = y \<and> release_gt xs ys))"

section \<open>A concrete world and a concrete launcher\<close>

definition demo_config :: LauncherConfig where
  "demo_config =
     \<lparr>AutoUpdateServer = True, CheckNetwork = True, OverwritePublicIP = False,
      notifications = \<lparr>notification_method = NONE, name = ''Astroneer Dedicated Server'', EventWhitelist = [],
                        discord = None, ntfy = None\<rparr>,
      status_config = \<lparr>SendStatus = False, Interval = 120, EndpointURL = []\<rparr>,
      LogDebugMessages = False, AstroServerPath = ''/srv/AstroneerServer'',
      OverrideWinePath = None, WinePrefixPath = ''/srv/winepfx'', WineBootTimeout = 30,
      LogPath = ''/srv/logs'', PlayfabAPIInterval = 2, DisableEncryption = False,
      WrapperPath = None\<rparr>"

definition demo_server :: AstroDedicatedServer where
  "demo_server =
     \<lparr>status = STOPPED, rcon = \<lparr>connected = False\<rparr>,
      ds_config = \<lparr>PublicIP = ''203.0.113.7'', ConsolePort = 1234\<rparr>,
      engine_config = \<lparr>Port = 7777\<rparr>\<rparr>"

definition demo_thread :: StatusUpdaterThread where
  "demo_thread = \<lparr>url = [], timeout = 120, thread_status = False\<rparr>"

definition demo_parser :: "string \<Rightarrow> parse_result" where
  "demo_parser s =
     (if s = ''help'' then Success \<lparr>cmd = HELP, message = ''usage: help | shutdown'', args = []\<rparr>
      else if s = ''shutdown'' then Success \<lparr>cmd = Verb ''shutdown'', message = [], args = []\<rparr>
      else Failure (''invalid choice: '' @ s))"

definition demo_launcher :: launcher where
  "demo_launcher =
     \<lparr>dedicatedserver = Some demo_server, status_thread = Some demo_thread,
      config_path = ''/srv/launcher.toml'', config = demo_config,
      wineexec = ''/usr/bin/wine'', wineserverexec = ''/usr/bin/wineserver'',
      launcherPath = ''/srv'', depotdl_path = ''/srv/libs/depotdownloader'',
      console_parser = demo_parser, cmd_queue = [],
      notification_handlers = [LoggingNotificationHandler], buildversion = None\<rparr>"

text \<open>
  A world in which version \<^verbatim>\<open>1.3.0\<close> is installed and is the latest one, wine boots,
  the ports are free and the game port is reachable from everywhere.
\<close>

definition demo_world :: "nat list world" where
  "demo_world =
     \<lparr>os_environ = [(''DISPLAY'', '':0''), (''HOME'', ''/root'')],
      getcwd = ''/srv'',
      abspath = (\<lambda>p. if p \<noteq> [] \<and> hd p = CHR ''/'' then p else ''/srv/'' @ p),
      which = (\<lambda>c. if c = ''wine'' then Some ''/usr/bin/wine''
                     else if c = ''wineserver'' then Some ''/usr/bin/wineserver'' else None),
      path_exists = (\<lambda>p. True),
      path_isfile = (\<lambda>p. True),
      read_build_version = (\<lambda>p. Some ''1.3.0''),
      read_build_version_updated = (\<lambda>p. Some ''1.3.0''),
      fetch_latest_version = (\<lambda>u. Returns ''1.3.0''),
      version_parse = parse_release,
      version_gt = release_gt,
      update_app = (\<lambda>e a p d. True),
      check_api_health = True,
      popen = (\<lambda>c e d. Returns ()),
      wait = (\<lambda>t. Returns 0),
      check_ports_free = True,
      net_test_local = (\<lambda>h p tcp. \<not> tcp),
      net_test_nonlocal = (\<lambda>h p. True),
      ds_start = Returns True,
      ensure_toml_config = (\<lambda>p. Returns demo_config),
      config_json = (\<lambda>c. ''{}''),
      new_dedicated_server = Returns demo_server\<rparr>"

section \<open>The conditions that the statements below speak of\<close>

text \<open>What \<^verbatim>\<open>check_server_update\<close> decided, when it got that far.\<close>

definition do_update_of :: "(bool \<times> bool) result \<Rightarrow> bool option" where
  "do_update_of r = (case outcome r of Return (do_update, installed) \<Rightarrow> Some do_update | _ \<Rightarrow> None)"

text \<open>Install case: no build version can be read, or the server executable is missing.\<close>

definition not_installed :: "'v world \<Rightarrow> launcher \<Rightarrow> bool" where
  "not_installed w self =
     (read_build_version w (AstroServerPath (config self)) = None \<or> \<not> check_ds_executable w self)"

text \<open>The fetch of the remote version fails, or the fetched string does not parse.\<close>

definition remote_check_failed :: "'v world \<Rightarrow> bool" where
  "remote_check_failed w =
     (case fetch_latest_version w ASTRO_SERVER_STATS_URL of
        Raises e \<Rightarrow> True
      | Returns newversion \<Rightarrow> (case version_parse w newversion of Raises e \<Rightarrow> True | Returns new \<Rightarrow> False))"

text \<open>The installed version string does not parse.\<close>

definition installed_unparsable :: "'v world \<Rightarrow> launcher \<Rightarrow> bool" where
  "installed_unparsable w self =
     (case read_build_version w (AstroServerPath (config self)) of
        None \<Rightarrow> False
      | Some oldversion \<Rightarrow> (case version_parse w oldversion of Raises e \<Rightarrow> True | Returns old \<Rightarrow> False))"

text \<open>Both versions parse and the remote one is strictly greater.\<close>

definition remote_newer :: "'v world \<Rightarrow> launcher \<Rightarrow> bool" where
  "remote_newer w self =
     (case read_build_version w (AstroServerPath (config self)) of
        None \<Rightarrow> False
      | Some oldversion \<Rightarrow>
          (case fetch_latest_version w ASTRO_SERVER_STATS_URL of
             Raises e \<Rightarrow> False
           | Returns newversion \<Rightarrow>
               (case version_parse w newversion of
                  Raises e \<Rightarrow> False
                | Returns new \<Rightarrow>
                    (case version_parse w oldversion of
                       Raises e \<Rightarrow> False
                     | Returns old \<Rightarrow> version_gt w new old))))"

text \<open>The four cases under which the code asks for an update.\<close>

definition update_needed :: "'v world \<Rightarrow> launcher \<Rightarrow> bool" where
  "update_needed w self =
     (not_installed w self \<or> remote_check_failed w \<or> installed_unparsable w self \<or> remote_newer w self)"

text \<open>The three cases under which the update is said to be needed.\<close>

definition update_needed_as_claimed :: "'v world \<Rightarrow> launcher \<Rightarrow> bool" where
  "update_needed_as_claimed w self =
     (not_installed w self \<or> remote_check_failed w \<or> remote_newer w self)"

text \<open>wineboot could be started, ended before the timeout and exited with code 0.\<close>

definition wineboot_ok :: "'v world \<Rightarrow> launcher \<Rightarrow> bool" where
  "wineboot_ok w self =
     (popen w (wineboot_cmd self) (wineboot_env w self) (AstroServerPath (config self)) = Returns ()
      \<and> wait w (WineBootTimeout (config self)) = Returns 0)"

text \<open>A world in which the first line of the installed version file is not a version.\<close>

definition unparsable_world :: "nat list world" where
  "unparsable_world = demo_world\<lparr>read_build_version := (\<lambda>p. Some ''abc'')\<rparr>"

text \<open>The object that \<^verbatim>\<open>__init__\<close> holds after its first two statements.\<close>

definition fresh_launcher :: launcher_base where
  "fresh_launcher = \<lparr>dedicatedserver = None, status_thread = None\<rparr>"

text \<open>The calls that go to the dedicated server object or to the status thread.\<close>

definition child_call :: "action \<Rightarrow> bool" where
  "child_call a =
     (case a of
        Kill \<Rightarrow> True | Shutdown \<Rightarrow> True | Start \<Rightarrow> True | ServerLoop \<Rightarrow> True
      | CheckPortsFree \<Rightarrow> True | UpdateStatus b m \<Rightarrow> True | StatusThreadStart \<Rightarrow> True
      | _ \<Rightarrow> False)"

text \<open>
  A run that calls neither of the two, whose returned value satisfies \<open>Q\<close>, and
  that, when it exits, exits with code 1 at the end of a forced \<^verbatim>\<open>exit\<close> on the
  object with both attributes None.
\<close>

definition ends_well :: "('a \<Rightarrow> bool) \<Rightarrow> 'a result \<Rightarrow> bool" where
  "ends_well Q r =
     (list_all (\<lambda>a. \<not> child_call a) (trace r)
      \<and> (case outcome r of
            Return x \<Rightarrow> Q x
          | SysExit c \<Rightarrow> c = 1 \<and> suffix (trace (exit fresh_launcher False None)) (trace r)
          | Raise e \<Rightarrow> True))"

section \<open>Sequencing lemmas\<close>

lemma and_then_Return: "and_then (t, Return x) f = (case f x of (t', r) \<Rightarrow> (t @ t', r))"
  by (simp add: and_then_def)

lemma and_then_SysExit: "and_then (t, SysExit c) f = (t, SysExit c)"
  by (simp add: and_then_def)

lemma and_then_Raise: "and_then (t, Raise e) f = (t, Raise e)"
  by (simp add: and_then_def)

lemma catch_Return: "catch (t, Return x) h = (t, Return x)"
  by (simp add: catch_def)

lemma catch_SysExit: "catch (t, SysExit c) h = (t, SysExit c)"
  by (simp add: catch_def)

lemma catch_Raise: "catch (t, Raise e) h = (case h e of (t', r) \<Rightarrow> (t @ t', r))"
  by (simp add: catch_def)

lemmas run =
  and_then_Return and_then_SysExit and_then_Raise catch_Return catch_SysExit catch_Raise
  ret_def act_def log_def raise_def sys_exit_def skip_def
  ds_call_def ds_get_def ds_ask_def st_call_def call_def try_call_def lift_attempt_def

section \<open>What each method does, case by case\<close>

lemma exit_forced_eq:
  "exit self False reason =
     (Log INFO (if truthy reason then ''Quitting... (Reason: '' @ str_of reason @ '')'' else ''Quitting...'')
        # (if dedicatedserver self \<noteq> None then [Kill] else [])
        @ (if status_thread self \<noteq> None then [UpdateStatus False ''Server was forcibly closed''] else [])
        @ [Sleep 100],
      SysExit 1)"
  by (cases "dedicatedserver self"; cases "status_thread self") (simp_all add: exit_def run)

lemma exit_graceful_eq:
  "exit self True reason =
     (let hello = Log INFO (if truthy reason then ''Quitting gracefully... (Reason: '' @ str_of reason @ '')''
                            else ''Quitting gracefully...'');
          goodbye = ([hello, Log INFO ''Goodbye!'', Log DEBUG ''Quitting with exit code 0...''], SysExit 0)
      in case dedicatedserver self of
           None \<Rightarrow> goodbye
         | Some ds \<Rightarrow>
             if status ds = RUNNING \<or> status ds = STARTING then
               if connected (rcon ds) then
                 ([hello, Log DEBUG ''Shutting down Dedicated Server before quitting...'', Shutdown], Return ())
               else ([hello, Kill], Return ())
             else goodbye)"
  by (cases "dedicatedserver self") (simp_all add: exit_def run starting_or_running_def)

lemma on_input_eq:
  "on_input self s =
     (case console_parser self s of
        Success c \<Rightarrow> if cmd c = HELP then ([Log INFO (message c)], Return self)
                     else ([], Return (self\<lparr>cmd_queue := cmd_queue self @ [c]\<rparr>))
      | Failure m \<Rightarrow> ([Log WARNING m], Return self))"
  by (simp add: on_input_def run split: parse_result.splits)

lemma update_wine_prefix_eq:
  "update_wine_prefix w self =
     (let tmo = WineBootTimeout (config self);
          cmd = wineboot_cmd self; env = wineboot_env w self; cwd = AstroServerPath (config self);
          pre = [Log DEBUG ''Ensuring WINE prefix is setup...'',
                 Log DEBUG (''Executing command '' @ [CHR 0x27] @ join '' '' cmd @ [CHR 0x27]
                    @ '' in WINE prefix '' @ [CHR 0x27] @ WinePrefixPath (config self) @ [CHR 0x27] @ ''...''),
                 Popen cmd env cwd];
          handler = (\<lambda>e. if exn_name e = ''TimeoutExpired''
                         then Log DEBUG (''Wine process took longer than '' @ str_int tmo @ '' seconds, aborting'')
                         else Log ERROR (''Error occurred during updating of wine prefix: '' @ exn_str e))
      in case popen w cmd env cwd of
           Raises e \<Rightarrow> (pre @ [handler e], Return False)
         | Returns _ \<Rightarrow>
             (case wait w tmo of
                Raises e \<Rightarrow> (pre @ [Wait tmo, handler e], Return False)
              | Returns code \<Rightarrow> (pre @ [Wait tmo], Return (code = 0))))"
  by (simp add: update_wine_prefix_def run Let_def split: attempt.splits)

lemma check_network_config_eq:
  "dedicatedserver self = Some ds \<Longrightarrow>
   check_network_config w self =
     (let ip = PublicIP (ds_config ds); port = Port (engine_config ds); cport = ConsolePort (ds_config ds);
          l = net_test_local w ip port False; n = net_test_nonlocal w ip port;
          rc = net_test_local w ip cport True
      in ([Log INFO ''Checking Network Configuration...'', NetTestLocal ip port False, NetTestNonlocal ip port]
          @ (if l \<and> n then [Log INFO ''Network configuration looks good'']
             else if \<not> l \<and> n then
               [Log WARNING ''The Server is not accessible from the local network'',
                Log WARNING ''This usually indicates an issue with NAT Loopback'']
             else if l \<and> \<not> n then
               [Log WARNING ''The server can be reached locally, but not from outside of the local network'',
                Log WARNING (''Make sure the Server Port ('' @ str_int port @ '') is forwarded for UDP traffic'')]
             else
               [Log WARNING ''The Server is completely unreachable'',
                Log WARNING (''Make sure the Server Port ('' @ str_int port
                   @ '') is forwarded for UDP traffic and check firewall settings'')])
          @ NetTestLocal ip cport True
          # (if rc then
               [Log WARNING (''SECURITY ALERT: The RCON Port ('' @ str_int cport @ '') is accessible from outside''),
                Log WARNING ''SECURITY ALERT: This potentially allows access to the Remote Console from outside your network'',
                Log WARNING ''SECURITY ALERT: Disable this ASAP to prevent issues'',
                Sleep 5000]
             else [Log INFO ''RCON network configuration looks good'']),
          Return ()))"
  by (simp add: check_network_config_def run Let_def)

lemma update_server_eq:
  "update_server w self =
     (let dl = depotdl_path self; dir = AstroServerPath (config self);
          bv = read_build_version_updated w dir
      in ((if \<not> path_exists w dl
           then [Log INFO ''DepotDownloader not found, downloading...'',
                 DlDepotDownloader (dirname dl) (basename dl)]
           else [])
          @ [Log INFO ''Updating Astroneer Dedicated Server app from Steam...'',
             UpdateApp dl ''728470'' ''windows'' dir,
             (if update_app w dl ''728470'' ''windows'' dir \<and> bv \<noteq> None
              then Log INFO (''Sucessfully updated Astroneer Dedicated Server to version '' @ str_of bv)
              else Log ERROR ''Error while updating Astroneer Dedicated Server'')],
          Return (self\<lparr>buildversion := bv\<rparr>)))"
  by (simp add: update_server_def run Let_def)

lemma update_decision_eq:
  "update_decision w self =
     (case read_build_version w (AstroServerPath (config self)) of
        None \<Rightarrow> ([Log WARNING ''Astroneer Dedicated Server is not installed yet''], Return (True, False))
      | Some oldversion \<Rightarrow>
          if \<not> check_ds_executable w self
          then ([Log WARNING ''Astroneer Dedicated Server is not installed yet''], Return (True, False))
          else
            (let blind = (\<lambda>e. (
                   [GetRequest ASTRO_SERVER_STATS_URL,
                    Log ERROR (''Error occured while checking for newest version: '' @ exn_str e),
                    Log WARNING ''Trying server update blindly...''], Return (True, True)))
             in case fetch_latest_version w ASTRO_SERVER_STATS_URL of
                  Raises e \<Rightarrow> blind e
                | Returns newversion \<Rightarrow>
                    (case version_parse w newversion of
                       Raises e \<Rightarrow> blind e
                     | Returns new \<Rightarrow>
                         (case version_parse w oldversion of
                            Raises e \<Rightarrow> blind e
                          | Returns old \<Rightarrow>
                              if version_gt w new old then
                                ([GetRequest ASTRO_SERVER_STATS_URL,
                                  Log WARNING (''Astroneer Dedicated Server update available (''
                                     @ oldversion @ '' -> '' @ newversion @ '')'')], Return (True, True))
                              else ([GetRequest ASTRO_SERVER_STATS_URL], Return (False, True))))))"
  by (simp add: update_decision_def run Let_def split: option.splits attempt.splits)

lemma update_decision_outcome:
  "outcome (update_decision w self) = Return (update_needed w self, \<not> not_installed w self)"
  by (simp add: update_decision_eq update_needed_def not_installed_def remote_check_failed_def
        installed_unparsable_def remote_newer_def Let_def split: option.splits attempt.splits)

lemma update_decision_trace:
  "list_all (\<lambda>a. is_Log a \<or> is_GetRequest a) (trace (update_decision w self))"
  by (simp add: update_decision_eq Let_def split: option.splits attempt.splits)

lemma check_server_update_eq:
  "check_server_update w self force_update =
     (trace (update_decision w self)
        @ (if update_needed w self then
             (if AutoUpdateServer (config self) \<or> force_update then
                (if AutoUpdateServer (config self)
                 then [Log INFO (if \<not> not_installed w self
                                 then ''Automatically updating Astroneer Dedicated Server...''
                                 else ''Automatically installing Astroneer Dedicated Server...'')]
                 else [])
                @ trace (update_server w self)
              else [Log INFO ''Not installing/updating automatically''])
           else
             [Log INFO (if force_update then ''Noting to do''
                        else ''No update available, the Astroneer Dedicated Server is on the newest version'')]),
      Return (if update_needed w self \<and> (AutoUpdateServer (config self) \<or> force_update)
              then self\<lparr>buildversion := read_build_version_updated w (AstroServerPath (config self))\<rparr>
              else self))"
proof -
  have d: "update_decision w self
      = (trace (update_decision w self), Return (update_needed w self, \<not> not_installed w self))"
    by (simp add: prod_eq_iff update_decision_outcome)
  show ?thesis
    unfolding check_server_update_def
    by (subst d) (simp add: run update_server_eq Let_def)
qed

lemma update_server_trace:
  "list_all (\<lambda>a. is_Log a \<or> is_DlDepotDownloader a \<or> is_UpdateApp a) (trace (update_server w self))"
  by (simp add: update_server_eq Let_def)

lemma check_server_update_trace:
  "list_all (\<lambda>a. is_Log a \<or> is_GetRequest a \<or> is_DlDepotDownloader a \<or> is_UpdateApp a)
     (trace (check_server_update w self force_update))"
proof -
  have "list_all (\<lambda>a. is_Log a \<or> is_GetRequest a \<or> is_DlDepotDownloader a \<or> is_UpdateApp a)
          (trace (update_decision w self))"
    using update_decision_trace [of w self] by (simp add: list_all_iff) blast
  moreover have "list_all (\<lambda>a. is_Log a \<or> is_GetRequest a \<or> is_DlDepotDownloader a \<or> is_UpdateApp a)
          (trace (update_server w self))"
    using update_server_trace [of w self] by (simp add: list_all_iff) blast
  ultimately show ?thesis
    by (simp add: check_server_update_eq)
qed

lemma update_wine_prefix_buildversion:
  "update_wine_prefix w (self\<lparr>buildversion := bv\<rparr>) = update_wine_prefix w self"
  by (simp add: update_wine_prefix_def wineboot_cmd_def wineboot_env_def Let_def)

lemma check_network_config_buildversion:
  "check_network_config w (self\<lparr>buildversion := bv\<rparr>) = check_network_config w self"
  by (simp add: check_network_config_def)

lemma exit_buildversion:
  "exit (self\<lparr>buildversion := bv\<rparr>) graceful reason = exit self graceful reason"
  by (cases graceful) (simp_all add: exit_forced_eq exit_graceful_eq)

lemma check_server_update_result:
  "check_server_update w self force_update =
     (trace (check_server_update w self force_update),
      Return (self\<lparr>buildversion :=
        (if update_needed w self \<and> (AutoUpdateServer (config self) \<or> force_update)
         then read_build_version_updated w (AstroServerPath (config self))
         else buildversion self)\<rparr>))"
  by (cases "update_needed w self \<and> (AutoUpdateServer (config self) \<or> force_update)")
     (auto simp: check_server_update_eq)

lemma update_wine_prefix_result:
  "update_wine_prefix w self = (trace (update_wine_prefix w self), Return (wineboot_ok w self))"
  by (simp add: update_wine_prefix_eq wineboot_ok_def Let_def split: attempt.splits)

text \<open>The three fatal checks of \<^verbatim>\<open>start_server\<close>, in the order of the source.\<close>

lemma start_server_fatal_cases:
  "(\<not> check_api_health w \<longrightarrow>
      start_server w self =
        (trace (check_server_update w self False)
           @ [CheckApiHealth, Log ERROR ''Playfab API is unavailable. Are you connected to the internet?'']
           @ trace (exit self False (Some ''Playfab API unavailable'')), SysExit 1))
   \<and> (check_api_health w \<and> \<not> wineboot_ok w self \<longrightarrow>
      start_server w self =
        (trace (check_server_update w self False) @ CheckApiHealth # trace (update_wine_prefix w self)
           @ trace (exit self False (Some ''Error while updating WINE prefix'')), SysExit 1))
   \<and> (check_api_health w \<and> wineboot_ok w self \<and> dedicatedserver self \<noteq> None \<and> \<not> check_ports_free w \<longrightarrow>
      start_server w self =
        (trace (check_server_update w self False) @ CheckApiHealth # trace (update_wine_prefix w self)
           @ CheckPortsFree # trace (exit self False (Some ''Port not available'')), SysExit 1))"
proof -
  define t0 where "t0 = trace (check_server_update w self False)"
  define bv where "bv = (if update_needed w self \<and> (AutoUpdateServer (config self) \<or> False)
         then read_build_version_updated w (AstroServerPath (config self))
         else buildversion self)"
  define t1 where "t1 = trace (update_wine_prefix w self)"
  have c: "check_server_update w self False = (t0, Return (self\<lparr>buildversion := bv\<rparr>))"
    unfolding t0_def bv_def by (rule check_server_update_result)
  have u: "update_wine_prefix w self = (t1, Return (wineboot_ok w self))"
    unfolding t1_def by (rule update_wine_prefix_result)
  have 1: "\<not> check_api_health w \<Longrightarrow> start_server w self =
      (t0 @ [CheckApiHealth, Log ERROR ''Playfab API is unavailable. Are you connected to the internet?'']
         @ trace (exit self False (Some ''Playfab API unavailable'')), SysExit 1)"
    unfolding start_server_def
    by (simp add: c run exit_buildversion exit_forced_eq)
  have 2: "check_api_health w \<Longrightarrow> \<not> wineboot_ok w self \<Longrightarrow> start_server w self =
      (t0 @ CheckApiHealth # t1 @ trace (exit self False (Some ''Error while updating WINE prefix'')), SysExit 1)"
    unfolding start_server_def
    by (simp add: c u update_wine_prefix_buildversion run exit_buildversion exit_forced_eq)
  have 3: "check_api_health w \<Longrightarrow> wineboot_ok w self \<Longrightarrow> dedicatedserver self \<noteq> None \<Longrightarrow>
      \<not> check_ports_free w \<Longrightarrow> start_server w self =
      (t0 @ CheckApiHealth # t1 @ CheckPortsFree # trace (exit self False (Some ''Port not available'')), SysExit 1)"
    unfolding start_server_def
    by (auto simp add: c u update_wine_prefix_buildversion run exit_buildversion exit_forced_eq)
  show ?thesis
    using 1 2 3 unfolding t0_def t1_def by blast
qed

text \<open>What the steps before the fatal checks do not do.\<close>

lemma check_server_update_quiet:
  "Start \<notin> set (trace (check_server_update w self f))"
  "ServerLoop \<notin> set (trace (check_server_update w self f))"
  "InputThreadStart \<notin> set (trace (check_server_update w self f))"
  "filter (\<lambda>a. a = CheckApiHealth) (trace (check_server_update w self f)) = []"
  "filter is_Popen (trace (check_server_update w self f)) = []"
  "filter (\<lambda>a. a = CheckPortsFree) (trace (check_server_update w self f)) = []"
  using check_server_update_trace [of w self f]
  by (auto simp: list_all_iff filter_empty_conv)

lemma update_wine_prefix_quiet:
  "Start \<notin> set (trace (update_wine_prefix w self))"
  "ServerLoop \<notin> set (trace (update_wine_prefix w self))"
  "InputThreadStart \<notin> set (trace (update_wine_prefix w self))"
  "filter (\<lambda>a. a = CheckApiHealth) (trace (update_wine_prefix w self)) = []"
  "length (filter is_Popen (trace (update_wine_prefix w self))) = 1"
  "filter (\<lambda>a. a = CheckPortsFree) (trace (update_wine_prefix w self)) = []"
  by (simp_all add: update_wine_prefix_eq Let_def split: attempt.splits)

lemma exit_forced_quiet:
  "Start \<notin> set (trace (exit self False reason))"
  "ServerLoop \<notin> set (trace (exit self False reason))"
  "InputThreadStart \<notin> set (trace (exit self False reason))"
  "filter (\<lambda>a. a = CheckApiHealth) (trace (exit self False reason)) = []"
  "filter is_Popen (trace (exit self False reason)) = []"
  "filter (\<lambda>a. a = CheckPortsFree) (trace (exit self False reason)) = []"
  "Log INFO (if truthy reason then ''Quitting... (Reason: '' @ str_of reason @ '')'' else ''Quitting...'')
     \<in> set (trace (exit self False reason))"
  by (simp_all add: exit_forced_eq)

section \<open>The concrete world and launcher, field by field\<close>

lemma demo_world_simps:
  "os_environ demo_world = [(''DISPLAY'', '':0''), (''HOME'', ''/root'')]"
  "getcwd demo_world = ''/srv''"
  "abspath demo_world = (\<lambda>p. if p \<noteq> [] \<and> hd p = CHR ''/'' then p else ''/srv/'' @ p)"
  "which demo_world = (\<lambda>c. if c = ''wine'' then Some ''/usr/bin/wine''
                     else if c = ''wineserver'' then Some ''/usr/bin/wineserver'' else None)"
  "path_exists demo_world = (\<lambda>p. True)"
  "path_isfile demo_world = (\<lambda>p. True)"
  "read_build_version demo_world = (\<lambda>p. Some ''1.3.0'')"
  "read_build_version_updated demo_world = (\<lambda>p. Some ''1.3.0'')"
  "fetch_latest_version demo_world = (\<lambda>u. Returns ''1.3.0'')"
  "version_parse demo_world = parse_release"
  "version_gt demo_world = release_gt"
  "update_app demo_world = (\<lambda>e a p d. True)"
  "check_api_health demo_world = True"
  "popen demo_world = (\<lambda>c e d. Returns ())"
  "wait demo_world = (\<lambda>t. Returns 0)"
  "check_ports_free demo_world = True"
  "net_test_local demo_world = (\<lambda>h p tcp. \<not> tcp)"
  "net_test_nonlocal demo_world = (\<lambda>h p. True)"
  "ds_start demo_world = Returns True"
  "ensure_toml_config demo_world = (\<lambda>p. Returns demo_config)"
  "config_json demo_world = (\<lambda>c. ''{}'')"
  "new_dedicated_server demo_world = Returns demo_server"
  by (simp_all add: demo_world_def)

lemma demo_launcher_simps:
  "dedicatedserver demo_launcher = Some demo_server"
  "status_thread demo_launcher = Some demo_thread"
  "config demo_launcher = demo_config"
  "wineexec demo_launcher = ''/usr/bin/wine''"
  "depotdl_path demo_launcher = ''/srv/libs/depotdownloader''"
  "console_parser demo_launcher = demo_parser"
  "cmd_queue demo_launcher = []"
  "buildversion demo_launcher = None"
  by (simp_all add: demo_launcher_def)

lemma demo_config_simps:
  "AutoUpdateServer demo_config = True"
  "CheckNetwork demo_config = True"
  "AstroServerPath demo_config = ''/srv/AstroneerServer''"
  "WinePrefixPath demo_config = ''/srv/winepfx''"
  "WineBootTimeout demo_config = 30"
  "WrapperPath demo_config = None"
  "OverrideWinePath demo_config = None"
  "LogPath demo_config = ''/srv/logs''"
  "LogDebugMessages demo_config = False"
  by (simp_all add: demo_config_def)

lemma demo_server_simps:
  "status demo_server = STOPPED"
  "connected (rcon demo_server) = False"
  "PublicIP (ds_config demo_server) = ''203.0.113.7''"
  "ConsolePort (ds_config demo_server) = 1234"
  "Port (engine_config demo_server) = 7777"
  by (simp_all add: demo_server_def)

lemmas demo = demo_world_simps demo_launcher_simps demo_config_simps demo_server_simps

lemma str_int_examples:
  "str_int 30 = ''30''"
  "str_int 7777 = ''7777''"
  "str_int 1234 = ''1234''"
  by (simp_all add: str_int_def str_nat.simps digit_def)

lemma demo_wineboot:
  "wineboot_cmd demo_launcher = [''/usr/bin/wine'', ''wineboot'']"
  "wineboot_env demo_world demo_launcher
      = [(''HOME'', ''/root''), (''WINEPREFIX'', ''/srv/winepfx''), (''WINEDEBUG'', ''-all'')]"
  "wineboot_env (demo_world\<lparr>wait := f\<rparr>) demo_launcher = wineboot_env demo_world demo_launcher"
  "wineboot_env (demo_world\<lparr>check_api_health := b\<rparr>) demo_launcher = wineboot_env demo_world demo_launcher"
  "wineboot_env (demo_world\<lparr>check_ports_free := b\<rparr>) demo_launcher = wineboot_env demo_world demo_launcher"
  by (simp_all add: wineboot_cmd_def wineboot_env_def demo truthy_def AList.delete_eq)

section \<open>Graceful exit\<close>

text \<open>
  C2. A call of \<^verbatim>\<open>exit\<close> with \<^verbatim>\<open>graceful=True\<close>: when the dedicated server exists
  and its status is STARTING or RUNNING, then without a connected remote console the
  only collaborator call is \<^verbatim>\<open>kill()\<close> (no shutdown request) and the method returns;
  with a connected remote console the only call is \<^verbatim>\<open>shutdown()\<close> and the method
  returns. In every other case (no server object, or any other status) the
  application exits with code 0 and no collaborator is called at all.
\<close>

theorem exit_graceful:
  "(\<forall>ds. dedicatedserver self = Some ds \<and> (status ds = STARTING \<or> status ds = RUNNING)
          \<and> \<not> connected (rcon ds) \<longrightarrow>
      calls (trace (exit self True reason)) = [Kill]
      \<and> outcome (exit self True reason) = Return ())
   \<and> (\<forall>ds. dedicatedserver self = Some ds \<and> (status ds = STARTING \<or> status ds = RUNNING)
          \<and> connected (rcon ds) \<longrightarrow>
      calls (trace (exit self True reason)) = [Shutdown]
      \<and> outcome (exit self True reason) = Return ())
   \<and> (dedicatedserver self = None
        \<or> (\<exists>ds. dedicatedserver self = Some ds \<and> status ds \<noteq> STARTING \<and> status ds \<noteq> RUNNING) \<longrightarrow>
      calls (trace (exit self True reason)) = []
      \<and> outcome (exit self True reason) = SysExit 0)"
  by (cases "dedicatedserver self") (auto simp: exit_graceful_eq calls_def Let_def)

theorem exit_graceful_witness:
  "calls (trace (exit (demo_launcher\<lparr>dedicatedserver := Some (demo_server\<lparr>status := RUNNING\<rparr>)\<rparr>)
      True (Some ''Received SIGINT signal''))) = [Kill]
   \<and> outcome (exit (demo_launcher\<lparr>dedicatedserver := Some (demo_server\<lparr>status := RUNNING\<rparr>)\<rparr>)
      True (Some ''Received SIGINT signal'')) = Return ()
   \<and> calls (trace (exit (demo_launcher\<lparr>dedicatedserver :=
        Some (demo_server\<lparr>status := STARTING, rcon := \<lparr>connected = True\<rparr>\<rparr>)\<rparr>)
      True (Some ''Received SIGINT signal''))) = [Shutdown]
   \<and> outcome (exit (demo_launcher\<lparr>dedicatedserver :=
        Some (demo_server\<lparr>status := STARTING, rcon := \<lparr>connected = True\<rparr>\<rparr>)\<rparr>)
      True (Some ''Received SIGINT signal'')) = Return ()
   \<and> calls (trace (exit demo_launcher True (Some ''Received SIGINT signal''))) = []
   \<and> outcome (exit demo_launcher True (Some ''Received SIGINT signal'')) = SysExit 0"
  using
    exit_graceful [of "demo_launcher\<lparr>dedicatedserver := Some (demo_server\<lparr>status := RUNNING\<rparr>)\<rparr>"
      "Some ''Received SIGINT signal''"]
    exit_graceful [of "demo_launcher\<lparr>dedicatedserver :=
        Some (demo_server\<lparr>status := STARTING, rcon := \<lparr>connected = True\<rparr>\<rparr>)\<rparr>"
      "Some ''Received SIGINT signal''"]
    exit_graceful [of demo_launcher "Some ''Received SIGINT signal''"]
  by (simp add: demo_launcher_def demo_server_def)

section \<open>Forced exit\<close>

text \<open>
  C5, as stated: every call of \<^verbatim>\<open>exit\<close> with \<^verbatim>\<open>graceful=False\<close> pushes a final
  "forcibly closed" status report. It does not when the status thread has not been
  created yet: on the object that the constructor holds after its first two
  statements, the forced exit logs one line, sleeps and exits, and no status update
  is sent.
\<close>

theorem exit_forced_without_status_thread:
  "exit fresh_launcher False None = ([Log INFO ''Quitting...'', Sleep 100], SysExit 1)"
  by (simp add: exit_forced_eq fresh_launcher_def truthy_def)

text \<open>
  C5, amended. A call of \<^verbatim>\<open>exit\<close> with \<^verbatim>\<open>graceful=False\<close> makes these collaborator
  calls and no others, in this order: \<^verbatim>\<open>kill()\<close> when the dedicated server object
  exists (its status is not read); one \<^verbatim>\<open>update_status(False, "Server was forcibly
  closed")\<close> when the status thread exists; a sleep of 0.1 seconds. Then the
  application exits with code 1.
\<close>

theorem exit_forced:
  "calls (trace (exit self False reason)) =
       (if dedicatedserver self \<noteq> None then [Kill] else [])
     @ (if status_thread self \<noteq> None then [UpdateStatus False ''Server was forcibly closed''] else [])
     @ [Sleep 100]
   \<and> outcome (exit self False reason) = SysExit 1"
  by (simp add: exit_forced_eq calls_def)

theorem exit_forced_witness:
  "calls (trace (exit (demo_launcher\<lparr>dedicatedserver := Some (demo_server\<lparr>status := CRASHED\<rparr>)\<rparr>)
      False (Some ''Port not available'')))
     = [Kill, UpdateStatus False ''Server was forcibly closed'', Sleep 100]
   \<and> outcome (exit (demo_launcher\<lparr>dedicatedserver := Some (demo_server\<lparr>status := CRASHED\<rparr>)\<rparr>)
      False (Some ''Port not available'')) = SysExit 1"
  using exit_forced [of "demo_launcher\<lparr>dedicatedserver := Some (demo_server\<lparr>status := CRASHED\<rparr>)\<rparr>"
      "Some ''Port not available''"]
  by (simp add: demo_launcher_def)

section \<open>Console input\<close>

text \<open>
  C3. \<^verbatim>\<open>on_input\<close> always returns (it neither raises nor exits). The command queue
  changes if and only if the line parses to a command whose kind is not HELP, and
  then the command is appended at the tail and nothing is logged. A parsed HELP
  command is logged at level INFO and the launcher is unchanged. A parse failure is
  logged at level WARNING and the launcher is unchanged.
\<close>

theorem on_input_enqueues:
  "\<exists>self'. outcome (on_input self s) = Return self'
     \<and> (cmd_queue self' \<noteq> cmd_queue self
          \<longleftrightarrow> (\<exists>c. console_parser self s = Success c \<and> cmd c \<noteq> HELP))
     \<and> (\<forall>c. console_parser self s = Success c \<and> cmd c \<noteq> HELP \<longrightarrow>
          self' = self\<lparr>cmd_queue := cmd_queue self @ [c]\<rparr> \<and> trace (on_input self s) = [])
     \<and> (\<forall>c. console_parser self s = Success c \<and> cmd c = HELP \<longrightarrow>
          self' = self \<and> trace (on_input self s) = [Log INFO (message c)])
     \<and> (\<forall>m. console_parser self s = Failure m \<longrightarrow>
          self' = self \<and> trace (on_input self s) = [Log WARNING m])"
  by (cases "console_parser self s") (auto simp: on_input_eq)

theorem on_input_enqueues_witness:
  "on_input demo_launcher ''shutdown''
     = ([], Return (demo_launcher\<lparr>cmd_queue := [\<lparr>cmd = Verb ''shutdown'', message = [], args = []\<rparr>]\<rparr>))
   \<and> on_input demo_launcher ''help'' = ([Log INFO ''usage: help | shutdown''], Return demo_launcher)
   \<and> on_input demo_launcher ''quit'' = ([Log WARNING ''invalid choice: quit''], Return demo_launcher)"
proof -
  have p: "console_parser demo_launcher = demo_parser" "cmd_queue demo_launcher = []"
    by (simp_all add: demo_launcher_def)
  have 1: "demo_parser ''shutdown'' = Success \<lparr>cmd = Verb ''shutdown'', message = [], args = []\<rparr>"
    and 2: "demo_parser ''help'' = Success \<lparr>cmd = HELP, message = ''usage: help | shutdown'', args = []\<rparr>"
    and 3: "demo_parser ''quit'' = Failure ''invalid choice: quit''"
    by (simp_all add: demo_parser_def)
  show ?thesis
    using on_input_enqueues [of demo_launcher "''shutdown''"]
      on_input_enqueues [of demo_launcher "''help''"]
      on_input_enqueues [of demo_launcher "''quit''"]
    by (auto simp: p 1 2 3 prod_eq_iff)
qed

section \<open>The wine prefix\<close>

text \<open>
  C7. \<^verbatim>\<open>update_wine_prefix\<close> always returns a boolean and never raises. It returns
  True if and only if wineboot could be started, ended within
  \<^verbatim>\<open>WineBootTimeout\<close> seconds and exited with code 0. The timeout handed to
  \<^verbatim>\<open>wait\<close> is the configured one. When starting wineboot or waiting for it raises,
  the result is False and one line is logged: at level DEBUG for
  \<^verbatim>\<open>TimeoutExpired\<close>, at level ERROR with the text of the exception otherwise.
\<close>

theorem update_wine_prefix_result_iff:
  "outcome (update_wine_prefix w self) = Return (wineboot_ok w self)
   \<and> (wineboot_ok w self \<longleftrightarrow>
        popen w (wineboot_cmd self) (wineboot_env w self) (AstroServerPath (config self)) = Returns ()
        \<and> wait w (WineBootTimeout (config self)) = Returns 0)
   \<and> (\<forall>t. Wait t \<in> set (trace (update_wine_prefix w self)) \<longrightarrow> t = WineBootTimeout (config self))
   \<and> (\<forall>e. popen w (wineboot_cmd self) (wineboot_env w self) (AstroServerPath (config self)) = Raises e
            \<or> (popen w (wineboot_cmd self) (wineboot_env w self) (AstroServerPath (config self)) = Returns ()
                \<and> wait w (WineBootTimeout (config self)) = Raises e) \<longrightarrow>
          outcome (update_wine_prefix w self) = Return False
          \<and> last (trace (update_wine_prefix w self)) =
              (if exn_name e = ''TimeoutExpired''
               then Log DEBUG (''Wine process took longer than '' @ str_int (WineBootTimeout (config self))
                      @ '' seconds, aborting'')
               else Log ERROR (''Error occurred during updating of wine prefix: '' @ exn_str e)))"
proof -
  have 1: "outcome (update_wine_prefix w self) = Return (wineboot_ok w self)"
    by (subst update_wine_prefix_result) simp
  have 2: "\<forall>t. Wait t \<in> set (trace (update_wine_prefix w self)) \<longrightarrow> t = WineBootTimeout (config self)"
    by (simp add: update_wine_prefix_eq Let_def split: attempt.splits)
  have 3: "\<forall>e. popen w (wineboot_cmd self) (wineboot_env w self) (AstroServerPath (config self)) = Raises e
            \<or> (popen w (wineboot_cmd self) (wineboot_env w self) (AstroServerPath (config self)) = Returns ()
                \<and> wait w (WineBootTimeout (config self)) = Raises e) \<longrightarrow>
          outcome (update_wine_prefix w self) = Return False
          \<and> last (trace (update_wine_prefix w self)) =
              (if exn_name e = ''TimeoutExpired''
               then Log DEBUG (''Wine process took longer than '' @ str_int (WineBootTimeout (config self))
                      @ '' seconds, aborting'')
               else Log ERROR (''Error occurred during updating of wine prefix: '' @ exn_str e))"
    by (auto simp: update_wine_prefix_eq Let_def)
  show ?thesis
    using 1 2 3 by (simp add: wineboot_ok_def)
qed

theorem update_wine_prefix_result_iff_witness:
  "update_wine_prefix demo_world demo_launcher
     = ([Log DEBUG ''Ensuring WINE prefix is setup...'',
         Log DEBUG (''Executing command '' @ [CHR 0x27] @ ''/usr/bin/wine wineboot'' @ [CHR 0x27]
            @ '' in WINE prefix '' @ [CHR 0x27] @ ''/srv/winepfx'' @ [CHR 0x27] @ ''...''),
         Popen [''/usr/bin/wine'', ''wineboot'']
           [(''HOME'', ''/root''), (''WINEPREFIX'', ''/srv/winepfx''), (''WINEDEBUG'', ''-all'')]
           ''/srv/AstroneerServer'',
         Wait 30], Return True)
   \<and> outcome (update_wine_prefix (demo_world\<lparr>wait := (\<lambda>t. Raises (Exn ''TimeoutExpired'' ''timed out''))\<rparr>)
        demo_launcher) = Return False
   \<and> last (trace (update_wine_prefix (demo_world\<lparr>wait := (\<lambda>t. Raises (Exn ''TimeoutExpired'' ''timed out''))\<rparr>)
        demo_launcher)) = Log DEBUG ''Wine process took longer than 30 seconds, aborting''
   \<and> outcome (update_wine_prefix (demo_world\<lparr>wait := (\<lambda>t. Returns 1)\<rparr>) demo_launcher) = Return False"
proof -
  have t: "trace (update_wine_prefix demo_world demo_launcher)
     = [Log DEBUG ''Ensuring WINE prefix is setup...'',
         Log DEBUG (''Executing command '' @ [CHR 0x27] @ ''/usr/bin/wine wineboot'' @ [CHR 0x27]
            @ '' in WINE prefix '' @ [CHR 0x27] @ ''/srv/winepfx'' @ [CHR 0x27] @ ''...''),
         Popen [''/usr/bin/wine'', ''wineboot'']
           [(''HOME'', ''/root''), (''WINEPREFIX'', ''/srv/winepfx''), (''WINEDEBUG'', ''-all'')]
           ''/srv/AstroneerServer'',
         Wait 30]"
    by (simp add: update_wine_prefix_eq Let_def demo demo_wineboot)
  show ?thesis
    using update_wine_prefix_result_iff [of demo_world demo_launcher]
      update_wine_prefix_result_iff [of "demo_world\<lparr>wait := (\<lambda>t. Raises (Exn ''TimeoutExpired'' ''timed out''))\<rparr>"
        demo_launcher]
      update_wine_prefix_result_iff [of "demo_world\<lparr>wait := (\<lambda>t. Returns 1)\<rparr>" demo_launcher]
    by (simp add: prod_eq_iff t demo demo_wineboot str_int_examples wineboot_ok_def)
qed

section \<open>The network check\<close>

text \<open>
  C4. In \<^verbatim>\<open>check_network_config\<close> on a launcher with a dedicated server, each of the
  three SECURITY ALERT warnings and the sleep of 5 seconds occur if and only if the
  probe of the remote console port (\<^verbatim>\<open>net_test_local\<close> on the public IP and the
  console port, over TCP) succeeds, whatever the two probes of the game port
  answer. When it succeeds the trace ends with the three warnings followed by the
  sleep. The method returns in either case.
\<close>

theorem rcon_security_alert:
  assumes "dedicatedserver self = Some ds"
  shows "outcome (check_network_config w self) = Return ()
    \<and> (Sleep 5000 \<in> set (trace (check_network_config w self))
        \<longleftrightarrow> net_test_local w (PublicIP (ds_config ds)) (ConsolePort (ds_config ds)) True)
    \<and> (Log WARNING (''SECURITY ALERT: The RCON Port ('' @ str_int (ConsolePort (ds_config ds))
            @ '') is accessible from outside'') \<in> set (trace (check_network_config w self))
        \<longleftrightarrow> net_test_local w (PublicIP (ds_config ds)) (ConsolePort (ds_config ds)) True)
    \<and> (Log WARNING ''SECURITY ALERT: This potentially allows access to the Remote Console from outside your network''
          \<in> set (trace (check_network_config w self))
        \<longleftrightarrow> net_test_local w (PublicIP (ds_config ds)) (ConsolePort (ds_config ds)) True)
    \<and> (Log WARNING ''SECURITY ALERT: Disable this ASAP to prevent issues''
          \<in> set (trace (check_network_config w self))
        \<longleftrightarrow> net_test_local w (PublicIP (ds_config ds)) (ConsolePort (ds_config ds)) True)
    \<and> (net_test_local w (PublicIP (ds_config ds)) (ConsolePort (ds_config ds)) True \<longrightarrow>
        (\<exists>before. trace (check_network_config w self) = before @
           [Log WARNING (''SECURITY ALERT: The RCON Port ('' @ str_int (ConsolePort (ds_config ds))
              @ '') is accessible from outside''),
            Log WARNING ''SECURITY ALERT: This potentially allows access to the Remote Console from outside your network'',
            Log WARNING ''SECURITY ALERT: Disable this ASAP to prevent issues'',
            Sleep 5000]))"
  by (cases "net_test_local w (PublicIP (ds_config ds)) (Port (engine_config ds)) False";
      cases "net_test_nonlocal w (PublicIP (ds_config ds)) (Port (engine_config ds))";
      cases "net_test_local w (PublicIP (ds_config ds)) (ConsolePort (ds_config ds)) True")
     (simp_all add: check_network_config_eq [OF assms] Let_def)

theorem rcon_security_alert_witness:
  "dedicatedserver demo_launcher = Some demo_server
   \<and> Sleep 5000 \<in> set (trace (check_network_config (demo_world\<lparr>net_test_local := (\<lambda>h p tcp. True)\<rparr>) demo_launcher))
   \<and> Log WARNING ''SECURITY ALERT: Disable this ASAP to prevent issues''
        \<in> set (trace (check_network_config (demo_world\<lparr>net_test_local := (\<lambda>h p tcp. True)\<rparr>) demo_launcher))
   \<and> outcome (check_network_config (demo_world\<lparr>net_test_local := (\<lambda>h p tcp. True)\<rparr>) demo_launcher) = Return ()
   \<and> Sleep 5000 \<notin> set (trace (check_network_config demo_world demo_launcher))"
proof -
  have ds: "dedicatedserver demo_launcher = Some demo_server"
    by (simp add: demo)
  show ?thesis
    using rcon_security_alert [OF ds, of "demo_world\<lparr>net_test_local := (\<lambda>h p tcp. True)\<rparr>"]
      rcon_security_alert [OF ds, of demo_world]
    by (simp add: demo)
qed

text \<open>
  C8. \<^verbatim>\<open>check_network_config\<close> on a launcher with a dedicated server returns, and
  its trace is: the opening line, the two probes of the game port, the diagnostic
  of the four-case table for their two answers, the probe of the console port and
  what the remote console check logs. The diagnostic is "looks good" for (true,
  true), the NAT loopback warning for (false, true), the port forwarding warning
  for (true, false), and the warning about port forwarding and the firewall for
  (false, false).
\<close>

theorem game_port_diagnostic:
  assumes "dedicatedserver self = Some ds"
    and "ip = PublicIP (ds_config ds)" and "port = Port (engine_config ds)"
    and "reachable_local = net_test_local w ip port False"
    and "reachable_nonlocal = net_test_nonlocal w ip port"
  shows "outcome (check_network_config w self) = Return ()
    \<and> (\<exists>diagnostic rcon_lines.
          trace (check_network_config w self) =
            [Log INFO ''Checking Network Configuration...'', NetTestLocal ip port False, NetTestNonlocal ip port]
            @ diagnostic @ NetTestLocal ip (ConsolePort (ds_config ds)) True # rcon_lines
        \<and> (reachable_local \<and> reachable_nonlocal \<longrightarrow>
              diagnostic = [Log INFO ''Network configuration looks good''])
        \<and> (\<not> reachable_local \<and> reachable_nonlocal \<longrightarrow>
              diagnostic = [Log WARNING ''The Server is not accessible from the local network'',
                            Log WARNING ''This usually indicates an issue with NAT Loopback''])
        \<and> (reachable_local \<and> \<not> reachable_nonlocal \<longrightarrow>
              diagnostic = [Log WARNING ''The server can be reached locally, but not from outside of the local network'',
                            Log WARNING (''Make sure the Server Port ('' @ str_int port
                               @ '') is forwarded for UDP traffic'')])
        \<and> (\<not> reachable_local \<and> \<not> reachable_nonlocal \<longrightarrow>
              diagnostic = [Log WARNING ''The Server is completely unreachable'',
                            Log WARNING (''Make sure the Server Port ('' @ str_int port
                               @ '') is forwarded for UDP traffic and check firewall settings'')]))"
  unfolding assms(2-5)
  by (cases "net_test_local w (PublicIP (ds_config ds)) (Port (engine_config ds)) False";
      cases "net_test_nonlocal w (PublicIP (ds_config ds)) (Port (engine_config ds))")
     (simp_all add: check_network_config_eq [OF assms(1)] Let_def)

theorem game_port_diagnostic_witness:
  "dedicatedserver demo_launcher = Some demo_server
   \<and> trace (check_network_config (demo_world\<lparr>net_test_nonlocal := (\<lambda>h p. False)\<rparr>) demo_launcher) =
       [Log INFO ''Checking Network Configuration...'',
        NetTestLocal ''203.0.113.7'' 7777 False, NetTestNonlocal ''203.0.113.7'' 7777,
        Log WARNING ''The server can be reached locally, but not from outside of the local network'',
        Log WARNING ''Make sure the Server Port (7777) is forwarded for UDP traffic'',
        NetTestLocal ''203.0.113.7'' 1234 True,
        Log INFO ''RCON network configuration looks good'']
   \<and> outcome (check_network_config (demo_world\<lparr>net_test_nonlocal := (\<lambda>h p. False)\<rparr>) demo_launcher) = Return ()"
proof -
  have ds: "dedicatedserver demo_launcher = Some demo_server"
    by (simp add: demo)
  have t: "trace (check_network_config (demo_world\<lparr>net_test_nonlocal := (\<lambda>h p. False)\<rparr>) demo_launcher) =
       [Log INFO ''Checking Network Configuration...'',
        NetTestLocal ''203.0.113.7'' 7777 False, NetTestNonlocal ''203.0.113.7'' 7777,
        Log WARNING ''The server can be reached locally, but not from outside of the local network'',
        Log WARNING ''Make sure the Server Port (7777) is forwarded for UDP traffic'',
        NetTestLocal ''203.0.113.7'' 1234 True,
        Log INFO ''RCON network configuration looks good'']"
    by (simp add: check_network_config_eq [OF ds] Let_def demo str_int_examples)
  show ?thesis
    using game_port_diagnostic [OF ds refl refl refl refl, of "demo_world\<lparr>net_test_nonlocal := (\<lambda>h p. False)\<rparr>"]
    by (simp add: ds t)
qed

section \<open>The update decision\<close>

text \<open>
  C1, as stated: the update is needed if and only if nothing is installed, or the
  fetch or the parse of the remote version fails, or the remote version is
  greater. With the installed version file reading \<^verbatim>\<open>abc\<close>, the executable in
  place and the remote version \<^verbatim>\<open>1.3.0\<close> fetched and parsed, none of the three
  holds, and the code asks for an update: parsing the installed version raises
  inside the same \<^verbatim>\<open>try\<close>.
\<close>

theorem update_decision_counterexample:
  "do_update_of (update_decision unparsable_world demo_launcher) = Some True
   \<and> \<not> update_needed_as_claimed unparsable_world demo_launcher"
proof -
  have abc: "parse_release ''abc'' = Raises (Exn ''InvalidVersion'' (''Invalid version: '' @ [CHR 0x27] @ ''abc'' @ [CHR 0x27]))"
    by (simp add: parse_release_def is_digit_def)
  have new: "parse_release ''1.3.0'' = Returns [1, 3]"
    by (simp add: parse_release_def is_digit_def int_of_digits_def strip_zeros_def)
  have exe: "check_ds_executable unparsable_world demo_launcher"
    by (simp add: check_ds_executable_def unparsable_world_def demo)
  have "update_needed unparsable_world demo_launcher"
    by (simp add: update_needed_def installed_unparsable_def unparsable_world_def demo abc)
  moreover have "\<not> update_needed_as_claimed unparsable_world demo_launcher"
    using exe
    by (simp add: update_needed_as_claimed_def not_installed_def remote_check_failed_def
          remote_newer_def) (simp add: unparsable_world_def demo abc new)
  ultimately show ?thesis
    by (simp add: do_update_of_def update_decision_outcome)
qed

text \<open>
  C1, amended. The decision of \<^verbatim>\<open>check_server_update\<close> (lines 420-442) always
  comes to a result, and an update is needed if and only if: no installed build
  version can be read or the server executable is missing; or the fetch of the
  remote version fails or the fetched string does not parse as a version; or the
  installed version string does not parse as a version; or both parse and the
  remote version is strictly greater. With \<^verbatim>\<open>1.3.0\<close> installed and \<^verbatim>\<open>1.3.0\<close>
  remote no update is needed; with \<^verbatim>\<open>1.2.0\<close> installed one is.
\<close>

theorem update_decision_iff:
  "do_update_of (update_decision w self)
     = Some (not_installed w self \<or> remote_check_failed w \<or> installed_unparsable w self \<or> remote_newer w self)
   \<and> do_update_of (update_decision demo_world demo_launcher) = Some False
   \<and> do_update_of (update_decision (demo_world\<lparr>read_build_version := (\<lambda>p. Some ''1.2.0'')\<rparr>) demo_launcher)
       = Some True"
proof -
  have new: "parse_release ''1.3.0'' = Returns [1, 3]"
    by (simp add: parse_release_def is_digit_def int_of_digits_def strip_zeros_def)
  have old: "parse_release ''1.2.0'' = Returns [1, 2]"
    by (simp add: parse_release_def is_digit_def int_of_digits_def strip_zeros_def)
  have exe: "check_ds_executable (demo_world\<lparr>read_build_version := f\<rparr>) demo_launcher"
      "check_ds_executable demo_world demo_launcher" for f
    by (simp_all add: check_ds_executable_def demo)
  have 1: "\<not> update_needed demo_world demo_launcher"
    using exe
    by (simp add: update_needed_def not_installed_def remote_check_failed_def installed_unparsable_def
          remote_newer_def demo new)
  have 2: "update_needed (demo_world\<lparr>read_build_version := (\<lambda>p. Some ''1.2.0'')\<rparr>) demo_launcher"
    by (simp add: update_needed_def remote_newer_def demo new old)
  show ?thesis
    using 1 2 by (simp add: do_update_of_def update_decision_outcome update_needed_def)
qed

theorem update_decision_iff_witness:
  "do_update_of (update_decision (demo_world\<lparr>fetch_latest_version := (\<lambda>u. Raises (Exn ''URLError'' ''timed out''))\<rparr>)
      demo_launcher) = Some True
   \<and> do_update_of (update_decision (demo_world\<lparr>read_build_version := (\<lambda>p. None)\<rparr>) demo_launcher) = Some True"
  using update_decision_iff [of "demo_world\<lparr>fetch_latest_version := (\<lambda>u. Raises (Exn ''URLError'' ''timed out''))\<rparr>"
      demo_launcher]
    update_decision_iff [of "demo_world\<lparr>read_build_version := (\<lambda>p. None)\<rparr>" demo_launcher]
  by (simp add: not_installed_def remote_check_failed_def)

section \<open>Whether the update is run\<close>

text \<open>
  C9. Let \<open>do_update\<close> be what the decision of \<^verbatim>\<open>check_server_update\<close> came to.
  \<^verbatim>\<open>update_server\<close> runs (its call of \<^verbatim>\<open>steam.update_app\<close> is in the trace, and the
  trace ends with the whole trace of \<^verbatim>\<open>update_server\<close>) if and only if \<open>do_update\<close>
  holds and \<^verbatim>\<open>AutoUpdateServer\<close> or \<^verbatim>\<open>force_update\<close> is true; otherwise neither the
  installer nor the downloader is called. When an update is needed and both are
  false, the only thing done after the decision is to log "Not installing/updating
  automatically" at level INFO, and the launcher is returned unchanged.
\<close>

theorem update_server_invoked_iff:
  assumes "do_update_of (update_decision w self) = Some do_update"
  shows "(UpdateApp (depotdl_path self) ''728470'' ''windows'' (AstroServerPath (config self))
            \<in> set (trace (check_server_update w self force_update))
          \<longleftrightarrow> do_update \<and> (AutoUpdateServer (config self) \<or> force_update))
    \<and> (do_update \<and> (AutoUpdateServer (config self) \<or> force_update) \<longrightarrow>
         (\<exists>before. check_server_update w self force_update
             = (before @ trace (update_server w self), outcome (update_server w self))))
    \<and> (\<not> (do_update \<and> (AutoUpdateServer (config self) \<or> force_update)) \<longrightarrow>
         filter (\<lambda>a. is_UpdateApp a \<or> is_DlDepotDownloader a) (trace (check_server_update w self force_update)) = []
         \<and> outcome (check_server_update w self force_update) = Return self)
    \<and> (do_update \<and> \<not> AutoUpdateServer (config self) \<and> \<not> force_update \<longrightarrow>
         check_server_update w self force_update
           = (trace (update_decision w self) @ [Log INFO ''Not installing/updating automatically''], Return self))"
proof -
  have du: "do_update = update_needed w self"
    using assms by (simp add: do_update_of_def update_decision_outcome)
  have quiet: "filter (\<lambda>a. is_UpdateApp a \<or> is_DlDepotDownloader a) (trace (update_decision w self)) = []"
    using update_decision_trace [of w self] by (auto simp: list_all_iff filter_empty_conv)
  then have notin: "UpdateApp (depotdl_path self) ''728470'' ''windows'' (AstroServerPath (config self))
      \<notin> set (trace (update_decision w self))"
    by (auto simp: filter_empty_conv)
  show ?thesis
  proof (cases "do_update \<and> (AutoUpdateServer (config self) \<or> force_update)")
    case True
    have "UpdateApp (depotdl_path self) ''728470'' ''windows'' (AstroServerPath (config self))
            \<in> set (trace (update_server w self))"
      by (simp add: update_server_eq Let_def)
    moreover have "outcome (update_server w self)
        = Return (self\<lparr>buildversion := read_build_version_updated w (AstroServerPath (config self))\<rparr>)"
      by (simp add: update_server_eq Let_def)
    ultimately show ?thesis
      using True by (auto simp: check_server_update_eq du)
  next
    case False
    then show ?thesis
      using quiet notin by (auto simp: check_server_update_eq du)
  qed
qed

theorem update_server_invoked_iff_witness:
  "do_update_of (update_decision (demo_world\<lparr>read_build_version := (\<lambda>p. None)\<rparr>) demo_launcher) = Some True
   \<and> UpdateApp ''/srv/libs/depotdownloader'' ''728470'' ''windows'' ''/srv/AstroneerServer''
       \<in> set (trace (check_server_update (demo_world\<lparr>read_build_version := (\<lambda>p. None)\<rparr>) demo_launcher False))
   \<and> check_server_update (demo_world\<lparr>read_build_version := (\<lambda>p. None)\<rparr>)
        (demo_launcher\<lparr>config := demo_config\<lparr>AutoUpdateServer := False\<rparr>\<rparr>) False
       = ([Log WARNING ''Astroneer Dedicated Server is not installed yet'',
           Log INFO ''Not installing/updating automatically''],
          Return (demo_launcher\<lparr>config := demo_config\<lparr>AutoUpdateServer := False\<rparr>\<rparr>))"
proof -
  have d: "update_decision (demo_world\<lparr>read_build_version := (\<lambda>p. None)\<rparr>) self
      = ([Log WARNING ''Astroneer Dedicated Server is not installed yet''], Return (True, False))" for self
    by (simp add: update_decision_eq)
  have du: "do_update_of (update_decision (demo_world\<lparr>read_build_version := (\<lambda>p. None)\<rparr>) self) = Some True" for self
    by (simp add: d do_update_of_def)
  show ?thesis
    using update_server_invoked_iff [OF du, of demo_launcher False]
      update_server_invoked_iff [OF du, of "demo_launcher\<lparr>config := demo_config\<lparr>AutoUpdateServer := False\<rparr>\<rparr>" False]
    by (simp add: d do_update_of_def demo)
qed

section \<open>Fatal checks before the start\<close>

text \<open>
  C6. In \<^verbatim>\<open>start_server\<close>, if the Playfab API is not healthy, or wineboot fails, or
  (on a launcher with a dedicated server) the ports are not free, the application
  exits with code 1 after logging the reason of the first failed check: "Playfab
  API unavailable", "Error while updating WINE prefix" or "Port not available".
  The health check is made once, wineboot is started at most once and the ports
  are checked at most once; the input thread and the dedicated server are never
  started and the server loop is never entered.
\<close>

theorem start_server_fatal:
  assumes "\<not> check_api_health w \<or> \<not> wineboot_ok w self
           \<or> (dedicatedserver self \<noteq> None \<and> \<not> check_ports_free w)"
  shows "outcome (start_server w self) = SysExit 1
    \<and> Log INFO (''Quitting... (Reason: ''
          @ (if \<not> check_api_health w then ''Playfab API unavailable''
             else if \<not> wineboot_ok w self then ''Error while updating WINE prefix''
             else ''Port not available'') @ '')'')
        \<in> set (trace (start_server w self))
    \<and> (\<not> check_api_health w \<longrightarrow>
         Log ERROR ''Playfab API is unavailable. Are you connected to the internet?''
           \<in> set (trace (start_server w self)))
    \<and> Start \<notin> set (trace (start_server w self))
    \<and> ServerLoop \<notin> set (trace (start_server w self))
    \<and> InputThreadStart \<notin> set (trace (start_server w self))
    \<and> length (filter (\<lambda>a. a = CheckApiHealth) (trace (start_server w self))) = 1
    \<and> length (filter is_Popen (trace (start_server w self))) \<le> 1
    \<and> length (filter (\<lambda>a. a = CheckPortsFree) (trace (start_server w self))) \<le> 1"
proof -
  note quiet = check_server_update_quiet update_wine_prefix_quiet exit_forced_quiet
  consider (health) "\<not> check_api_health w"
    | (prefix) "check_api_health w" "\<not> wineboot_ok w self"
    | (ports) "check_api_health w" "wineboot_ok w self" "dedicatedserver self \<noteq> None" "\<not> check_ports_free w"
    using assms by blast
  then show ?thesis
  proof cases
    case health
    then have eq: "start_server w self =
        (trace (check_server_update w self False)
           @ [CheckApiHealth, Log ERROR ''Playfab API is unavailable. Are you connected to the internet?'']
           @ trace (exit self False (Some ''Playfab API unavailable'')), SysExit 1)"
      using start_server_fatal_cases [of w self] by blast
    have "Log INFO ''Quitting... (Reason: Playfab API unavailable)''
        \<in> set (trace (exit self False (Some ''Playfab API unavailable'')))"
      using exit_forced_quiet(7) [of "Some ''Playfab API unavailable''" self]
      by (simp add: truthy_def str_of_def)
    then show ?thesis
      using health by (simp add: eq quiet)
  next
    case prefix
    then have eq: "start_server w self =
        (trace (check_server_update w self False) @ CheckApiHealth # trace (update_wine_prefix w self)
           @ trace (exit self False (Some ''Error while updating WINE prefix'')), SysExit 1)"
      using start_server_fatal_cases [of w self] by blast
    have "Log INFO ''Quitting... (Reason: Error while updating WINE prefix)''
        \<in> set (trace (exit self False (Some ''Error while updating WINE prefix'')))"
      using exit_forced_quiet(7) [of "Some ''Error while updating WINE prefix''" self]
      by (simp add: truthy_def str_of_def)
    then show ?thesis
      using prefix by (simp add: eq quiet)
  next
    case ports
    then have eq: "start_server w self =
        (trace (check_server_update w self False) @ CheckApiHealth # trace (update_wine_prefix w self)
           @ CheckPortsFree # trace (exit self False (Some ''Port not available'')), SysExit 1)"
      using start_server_fatal_cases [of w self] by blast
    have "Log INFO ''Quitting... (Reason: Port not available)''
        \<in> set (trace (exit self False (Some ''Port not available'')))"
      using exit_forced_quiet(7) [of "Some ''Port not available''" self]
      by (simp add: truthy_def str_of_def)
    then show ?thesis
      using ports by (simp add: eq quiet)
  qed
qed

theorem start_server_fatal_witness:
  "outcome (start_server (demo_world\<lparr>check_api_health := False\<rparr>) demo_launcher) = SysExit 1
   \<and> Log INFO ''Quitting... (Reason: Playfab API unavailable)''
       \<in> set (trace (start_server (demo_world\<lparr>check_api_health := False\<rparr>) demo_launcher))
   \<and> outcome (start_server (demo_world\<lparr>wait := (\<lambda>t. Returns 1)\<rparr>) demo_launcher) = SysExit 1
   \<and> Log INFO ''Quitting... (Reason: Error while updating WINE prefix)''
       \<in> set (trace (start_server (demo_world\<lparr>wait := (\<lambda>t. Returns 1)\<rparr>) demo_launcher))
   \<and> outcome (start_server (demo_world\<lparr>check_ports_free := False\<rparr>) demo_launcher) = SysExit 1
   \<and> Log INFO ''Quitting... (Reason: Port not available)''
       \<in> set (trace (start_server (demo_world\<lparr>check_ports_free := False\<rparr>) demo_launcher))
   \<and> Start \<notin> set (trace (start_server (demo_world\<lparr>check_ports_free := False\<rparr>) demo_launcher))"
proof -
  have ok: "wineboot_ok (demo_world\<lparr>check_ports_free := False\<rparr>) demo_launcher"
    and bad: "\<not> wineboot_ok (demo_world\<lparr>wait := (\<lambda>t. Returns 1)\<rparr>) demo_launcher"
    by (simp_all add: wineboot_ok_def demo)
  show ?thesis
    using start_server_fatal [of "demo_world\<lparr>check_api_health := False\<rparr>" demo_launcher]
      start_server_fatal [of "demo_world\<lparr>wait := (\<lambda>t. Returns 1)\<rparr>" demo_launcher]
      start_server_fatal [of "demo_world\<lparr>check_ports_free := False\<rparr>" demo_launcher]
    by (simp add: ok bad demo)
qed

section \<open>The constructor and the two attributes\<close>

lemma ends_well_and_then:
  assumes "ends_well (\<lambda>_. True) m" and "\<And>x. ends_well Q (f x)"
  shows "ends_well Q (and_then m f)"
proof (cases m)
  case (Pair t r)
  show ?thesis
  proof (cases r)
    case (Return x)
    obtain t' r' where fx: "f x = (t', r')"
      by (cases "f x")
    have "ends_well Q (t', r')"
      using assms(2) [of x] by (simp add: fx)
    moreover have "list_all (\<lambda>a. \<not> child_call a) t"
      using assms(1) by (simp add: ends_well_def Pair)
    ultimately show ?thesis
      by (cases r') (auto simp: ends_well_def Pair Return and_then_Return fx suffix_append)
  next
    case (SysExit c)
    then show ?thesis
      using assms(1) by (simp add: ends_well_def Pair and_then_SysExit)
  next
    case (Raise e)
    then show ?thesis
      using assms(1) by (simp add: ends_well_def Pair and_then_Raise)
  qed
qed

lemma ends_well_catch:
  assumes "ends_well Q m" and "\<And>e. ends_well Q (h e)"
  shows "ends_well Q (catch m h)"
proof (cases m)
  case (Pair t r)
  show ?thesis
  proof (cases r)
    case (Return x)
    then show ?thesis
      using assms(1) by (simp add: ends_well_def Pair catch_Return)
  next
    case (SysExit c)
    then show ?thesis
      using assms(1) by (simp add: ends_well_def Pair catch_SysExit)
  next
    case (Raise e)
    obtain t' r' where he: "h e = (t', r')"
      by (cases "h e")
    have "ends_well Q (t', r')"
      using assms(2) [of e] by (simp add: he)
    moreover have "list_all (\<lambda>a. \<not> child_call a) t"
      using assms(1) by (simp add: ends_well_def Pair)
    ultimately show ?thesis
      by (cases r') (auto simp: ends_well_def Pair Raise catch_Raise he suffix_append)
  qed
qed

lemma ends_well_ret: "ends_well Q (ret x) = Q x"
  by (simp add: ends_well_def ret_def)

lemma ends_well_raise: "ends_well Q (raise e)"
  by (simp add: ends_well_def raise_def)

lemma ends_well_act: "ends_well (\<lambda>_. True) (act a) = (\<not> child_call a)"
  by (simp add: ends_well_def act_def)

lemma ends_well_log: "ends_well (\<lambda>_. True) (log lvl msg)"
  by (simp add: ends_well_act log_def child_call_def)

lemma ends_well_lift_attempt: "ends_well (\<lambda>_. True) (lift_attempt r)"
  by (cases r) (simp_all add: lift_attempt_def ends_well_ret ends_well_raise)

lemma ends_well_try_call: "\<not> child_call a \<Longrightarrow> ends_well (\<lambda>_. True) (try_call a r)"
  unfolding try_call_def
  by (intro ends_well_and_then) (simp_all add: ends_well_act ends_well_lift_attempt)

lemma ends_well_exit: "ends_well Q (exit \<lparr>dedicatedserver = None, status_thread = None\<rparr> False None)"
  by (simp add: ends_well_def exit_forced_eq fresh_launcher_def child_call_def)

lemmas ends_well_basic =
  ends_well_ret ends_well_raise ends_well_act ends_well_log ends_well_lift_attempt ends_well_exit

lemma ends_well_init_depotdl_path: "ends_well (\<lambda>_. True) (init_depotdl_path w depotdl_exec)"
  unfolding init_depotdl_path_def Let_def
  by (intro ends_well_and_then)
     (auto intro!: ends_well_and_then simp: ends_well_basic child_call_def split: option.splits)

lemma ends_well_init_notifications: "ends_well (\<lambda>_. True) (init_notifications cfg)"
  unfolding init_notifications_def Let_def
  by (auto intro!: ends_well_and_then simp: ends_well_basic split: option.splits)

lemma ends_well_init:
  "ends_well (\<lambda>l. dedicatedserver l \<noteq> None \<and> status_thread l \<noteq> None)
     (init w parser config_path_arg astro_path depotdl_exec force_debug_log)"
  unfolding init_def Let_def
  by (intro ends_well_and_then ends_well_catch)
     (auto intro!: ends_well_and_then ends_well_catch ends_well_init_depotdl_path
        ends_well_init_notifications ends_well_try_call
        simp: ends_well_basic child_call_def split: option.splits prod.splits)

text \<open>
  C10. \<^verbatim>\<open>exit\<close> never raises, whatever the two attributes hold, with or without
  \<^verbatim>\<open>graceful\<close>: with \<^verbatim>\<open>self.dedicatedserver\<close> None it calls neither \<^verbatim>\<open>kill()\<close> nor
  \<^verbatim>\<open>shutdown()\<close>, and with \<^verbatim>\<open>self.status_thread\<close> None it sends no status update.
  The constructor assigns None to both attributes before anything else: it calls
  nothing on the dedicated server or the status thread, every exit of the
  constructor has code 1 and is the end of a forced \<^verbatim>\<open>exit\<close> on the object with
  both attributes None, and a launcher that the constructor returns has both.
\<close>

theorem exit_safe:
  "(\<forall>e. outcome (exit self graceful reason) \<noteq> Raise e)
   \<and> (dedicatedserver self = None \<longrightarrow>
        list_all (\<lambda>a. a \<noteq> Kill \<and> a \<noteq> Shutdown) (trace (exit self graceful reason)))
   \<and> (status_thread self = None \<longrightarrow>
        list_all (\<lambda>a. \<not> is_UpdateStatus a) (trace (exit self graceful reason)))
   \<and> list_all (\<lambda>a. \<not> child_call a) (trace (init w parser config_path_arg astro_path depotdl_exec force_debug_log))
   \<and> (\<forall>c. outcome (init w parser config_path_arg astro_path depotdl_exec force_debug_log) = SysExit c \<longrightarrow>
        c = 1 \<and> suffix (trace (exit fresh_launcher False None))
                  (trace (init w parser config_path_arg astro_path depotdl_exec force_debug_log)))
   \<and> (\<forall>l. outcome (init w parser config_path_arg astro_path depotdl_exec force_debug_log) = Return l \<longrightarrow>
        dedicatedserver l \<noteq> None \<and> status_thread l \<noteq> None)"
proof -
  have 1: "\<forall>e. outcome (exit self graceful reason) \<noteq> Raise e"
    by (cases graceful; cases "dedicatedserver self") (simp_all add: exit_forced_eq exit_graceful_eq Let_def)
  have 2: "dedicatedserver self = None \<longrightarrow>
        list_all (\<lambda>a. a \<noteq> Kill \<and> a \<noteq> Shutdown) (trace (exit self graceful reason))"
    by (cases graceful) (simp_all add: exit_forced_eq exit_graceful_eq Let_def)
  have 3: "status_thread self = None \<longrightarrow>
        list_all (\<lambda>a. \<not> is_UpdateStatus a) (trace (exit self graceful reason))"
    by (cases graceful; cases "dedicatedserver self") (simp_all add: exit_forced_eq exit_graceful_eq Let_def)
  show ?thesis
    using 1 2 3 ends_well_init [of w parser config_path_arg astro_path depotdl_exec force_debug_log]
    by (auto simp: ends_well_def split: outcome.splits)
qed

theorem exit_safe_witness:
  "exit fresh_launcher True None
     = ([Log INFO ''Quitting gracefully...'', Log INFO ''Goodbye!'', Log DEBUG ''Quitting with exit code 0...''],
        SysExit 0)
   \<and> list_all (\<lambda>a. a \<noteq> Kill \<and> a \<noteq> Shutdown) (trace (exit fresh_launcher False None))
   \<and> list_all (\<lambda>a. \<not> is_UpdateStatus a) (trace (exit fresh_launcher False None))
   \<and> outcome (init (demo_world\<lparr>ensure_toml_config := (\<lambda>p. Raises (Exn ''ValueError''
          ''Specified config path doesn't point to a file!''))\<rparr>) demo_parser ''launcher.toml'' None None False)
       = SysExit 1
   \<and> suffix [Log INFO ''Quitting...'', Sleep 100]
       (trace (init (demo_world\<lparr>ensure_toml_config := (\<lambda>p. Raises (Exn ''ValueError''
          ''Specified config path doesn't point to a file!''))\<rparr>) demo_parser ''launcher.toml'' None None False))"
proof -
  have fresh: "dedicatedserver fresh_launcher = None" "status_thread fresh_launcher = None"
    by (simp_all add: fresh_launcher_def)
  have g: "exit fresh_launcher True None
     = ([Log INFO ''Quitting gracefully...'', Log INFO ''Goodbye!'', Log DEBUG ''Quitting with exit code 0...''],
        SysExit 0)"
    by (simp add: exit_graceful_eq fresh truthy_def)
  have f: "exit fresh_launcher False None = ([Log INFO ''Quitting...'', Sleep 100], SysExit 1)"
    by (simp add: exit_forced_eq fresh truthy_def)
  have i: "outcome (init (demo_world\<lparr>ensure_toml_config := (\<lambda>p. Raises (Exn ''ValueError''
          ''Specified config path doesn't point to a file!''))\<rparr>) demo_parser ''launcher.toml'' None None False)
       = SysExit 1"
    by (simp add: init_def run exit_forced_eq Let_def)
  show ?thesis
    using exit_safe [of fresh_launcher False None
        "demo_world\<lparr>ensure_toml_config := (\<lambda>p. Raises (Exn ''ValueError''
          ''Specified config path doesn't point to a file!''))\<rparr>" demo_parser "''launcher.toml''" None None False]
    by (simp add: fresh g f i)
qed

end
